theory Spec2Isabelle
  imports Complex_Main
begin

section \<open>Motion2Music: signal primitives, cue extractors, beat extraction\<close>

text \<open>
  A shallow embedding of the numerical core of Motion2Music
  (\<^verbatim>\<open>beats/helpers.py\<close>, \<^verbatim>\<open>beats/cues.py\<close>, \<^verbatim>\<open>beats/BeatExtraction.py\<close>,
  \<^verbatim>\<open>ml/ml_helpers.py\<close>, \<^verbatim>\<open>io/loadbvh.py\<close>, \<^verbatim>\<open>scripts/build_ml_dataset.py\<close>).

  Conventions.
  \<^item> Inside the pipeline a NumPy float array is a list of \<open>real\<close>: the arithmetic is exact.
    The two places where IEEE doubles leave the reals are modelled apart: the median of an
    empty joint axis, which is NaN and sends both extractors down a path of its own
    (\<open>no_joints_v1\<close>, \<open>no_joints_v2\<close>), and the overflow of a subtraction in
    \<^verbatim>\<open>_robust_norm\<close> (\<open>robust_norm_ieee\<close>).
  \<^item> A float array that is returned to the caller is a list of \<open>dbl\<close>, so that it can
    hold NaN.
  \<^item> An integer index array is a list of \<open>nat\<close> where the source only ever holds
    non-negative positions, and a list of \<open>int\<close> where the caller may pass anything.
  \<^item> Every \<^verbatim>\<open>raise\<close>, failed \<^verbatim>\<open>assert\<close> and NumPy exception is a value \<open>Inl e\<close>
    of the result type \<open>error + 'a\<close>.
\<close>

datatype error =
    IndexError        \<comment> \<open>a read or write outside an array\<close>
  | ValueError        \<comment> \<open>NumPy shape mismatch, bad percentile, empty pad, bad channel count\<close>
  | TypeError         \<comment> \<open>\<^verbatim>\<open>np.polyfit\<close> on an empty vector\<close>
  | AssertionError    \<comment> \<open>a failed \<^verbatim>\<open>assert\<close>\<close>
  | ZeroDivisionError \<comment> \<open>Python float division by zero\<close>
  | LinAlgError       \<comment> \<open>\<^verbatim>\<open>np.linalg.lstsq\<close> on a matrix holding NaN\<close>
  | NotANumber        \<comment> \<open>no exception: NumPy goes on with NaN (the median of an empty axis)\<close>

text \<open>A double: a real, an infinity or NaN. The sign of zero is not kept.\<close>

datatype dbl = Num real | PosInf | NegInf | NaN

subsection \<open>Local extrema (\<^verbatim>\<open>helpers.py\<close>)\<close>

text \<open>
  \<^verbatim>\<open>m = zeros_like(x, bool); if x.shape[0] >= 3: m[1:-1] = (x[1:-1] > x[:-2]) & (x[1:-1] >= x[2:])\<close>
\<close>

definition local_maxima :: "real list \<Rightarrow> bool list" where
  "local_maxima x =
     (if length x \<ge> 3
      then False # map (\<lambda>i. x ! i > x ! (i - 1) \<and> x ! i \<ge> x ! (i + 1)) [1..<length x - 1] @ [False]
      else replicate (length x) False)"

definition local_minima :: "real list \<Rightarrow> bool list" where
  "local_minima x =
     (if length x \<ge> 3
      then False # map (\<lambda>i. x ! i < x ! (i - 1) \<and> x ! i \<le> x ! (i + 1)) [1..<length x - 1] @ [False]
      else replicate (length x) False)"

text \<open>\<^verbatim>\<open>np.where(m)[0]\<close>: the positions of the true entries, ascending.\<close>

definition np_where :: "bool list \<Rightarrow> nat list" where
  "np_where m = filter (\<lambda>i. m ! i) [0..<length m]"

subsection \<open>Non-maximum suppression (\<^verbatim>\<open>helpers.py\<close>)\<close>

text \<open>Python's \<^verbatim>\<open>round(x)\<close> on a float: to the nearest integer, ties to the even one.\<close>

definition py_round :: "real \<Rightarrow> int" where
  "py_round x =
     (let f = \<lfloor>x\<rfloor>; d = x - of_int f
      in if d < 1 / 2 then f else if d > 1 / 2 then f + 1 else if even f then f else f + 1)"

text \<open>
  \<^verbatim>\<open>np.argsort(v)\<close>: a permutation of the positions of \<open>v\<close> that sorts it ascending. NumPy's
  default sort leaves the order of equal keys to the implementation; the model takes the
  stable order. The properties proved of the suppression loop below hold for every order
  of the candidates.
\<close>

definition argsort :: "real list \<Rightarrow> nat list" where
  "argsort v = sort_key (\<lambda>p. v ! p) [0..<length v]"

text \<open>\<^verbatim>\<open>taken[lo:hi] = True\<close>\<close>

definition set_slice :: "bool list \<Rightarrow> nat \<Rightarrow> nat \<Rightarrow> bool list" where
  "set_slice taken lo hi = map (\<lambda>j. if lo \<le> j \<and> j < hi then True else taken ! j) [0..<length taken]"

text \<open>
  The greedy loop of \<^verbatim>\<open>_nms_basic\<close>; \<open>n\<close> is \<^verbatim>\<open>score.shape[0]\<close>:
  \<^verbatim>\<open>
  for i in order:
      if not taken[i]:
          picked.append(i)
          lo, hi = max(0, i - win), min(score.shape[0], i + win + 1)
          taken[lo:hi] = True
  \<close>
\<close>

fun nms_loop :: "nat \<Rightarrow> int \<Rightarrow> nat list \<Rightarrow> bool list \<Rightarrow> nat list \<Rightarrow> nat list" where
  "nms_loop n win [] taken picked = picked"
| "nms_loop n win (i # order) taken picked =
     (if \<not> taken ! i
      then (let lo = max 0 (int i - win); hi = min (int n) (int i + win + 1)
            in nms_loop n win order (set_slice taken (nat lo) (nat hi)) (picked @ [i]))
      else nms_loop n win order taken picked)"

definition nms_win :: "real \<Rightarrow> real \<Rightarrow> int" where
  "nms_win fps min_sep_s = max 1 (py_round (min_sep_s * fps))"

definition nms_basic :: "real list \<Rightarrow> real \<Rightarrow> real \<Rightarrow> nat list" where
  "nms_basic score fps min_sep_s =
     (let idx = np_where (local_maxima score)
      in if idx = [] then idx
         else (let order = map (\<lambda>p. idx ! p) (rev (argsort (map (\<lambda>i. score ! i) idx)));
                   taken = replicate (length score) False;
                   win = nms_win fps min_sep_s
               in sort (nms_loop (length score) win order taken [])))"

subsection \<open>Errors, slices and reductions\<close>

definition bindE :: "error + 'a \<Rightarrow> ('a \<Rightarrow> error + 'b) \<Rightarrow> error + 'b" where
  "bindE m f = (case m of Inl e \<Rightarrow> Inl e | Inr v \<Rightarrow> f v)"

text \<open>A Python loop whose body may raise: the first error ends it.\<close>

fun mapE :: "('a \<Rightarrow> error + 'b) \<Rightarrow> 'a list \<Rightarrow> error + 'b list" where
  "mapE f [] = Inr []"
| "mapE f (x # xs) =
     (case f x of Inl e \<Rightarrow> Inl e
      | Inr y \<Rightarrow> (case mapE f xs of Inl e \<Rightarrow> Inl e | Inr ys \<Rightarrow> Inr (y # ys)))"

text \<open>\<^verbatim>\<open>x[lo:hi]\<close> for \<open>0 \<le> lo\<close> and \<open>hi \<le> len(x)\<close> (the source clamps both before slicing).\<close>

definition slice :: "'a list \<Rightarrow> nat \<Rightarrow> nat \<Rightarrow> 'a list" where
  "slice x lo hi = take (hi - lo) (drop lo x)"

text \<open>\<^verbatim>\<open>np.argmax\<close> and \<^verbatim>\<open>np.argmin\<close>: the first position of the extreme value.\<close>

fun argmax_from :: "'a::linorder list \<Rightarrow> nat \<Rightarrow> nat \<Rightarrow> 'a \<Rightarrow> nat" where
  "argmax_from [] i best bv = best"
| "argmax_from (v # vs) i best bv =
     (if v > bv then argmax_from vs (Suc i) i v else argmax_from vs (Suc i) best bv)"

fun argmin_from :: "'a::linorder list \<Rightarrow> nat \<Rightarrow> nat \<Rightarrow> 'a \<Rightarrow> nat" where
  "argmin_from [] i best bv = best"
| "argmin_from (v # vs) i best bv =
     (if v < bv then argmin_from vs (Suc i) i v else argmin_from vs (Suc i) best bv)"

text \<open>Every call in the source is on a slice that is not empty (NumPy raises on an empty one).\<close>

definition argmax :: "'a::linorder list \<Rightarrow> nat" where
  "argmax x = (case x of [] \<Rightarrow> 0 | v # vs \<Rightarrow> argmax_from vs 1 0 v)"

definition argmin :: "'a::linorder list \<Rightarrow> nat" where
  "argmin x = (case x of [] \<Rightarrow> 0 | v # vs \<Rightarrow> argmin_from vs 1 0 v)"

definition np_mean :: "real list \<Rightarrow> real" where
  "np_mean x = sum_list x / real (length x)"

definition np_std :: "real list \<Rightarrow> real" where
  "np_std x = sqrt (np_mean (map (\<lambda>v. (v - np_mean x)\<^sup>2) x))"

text \<open>\<^verbatim>\<open>np.median\<close> of a 1-D slice; of an empty one NumPy gives NaN.\<close>

definition np_median :: "real list \<Rightarrow> error + real" where
  "np_median x =
     (let s = sort x; n = length x
      in if n = 0 then Inl NotANumber
         else if odd n then Inr (s ! (n div 2))
         else Inr ((s ! (n div 2 - 1) + s ! (n div 2)) / 2))"

text \<open>
  \<^verbatim>\<open>np.percentile(x, q)\<close>, default (linear) method: the value at the virtual position
  \<open>(n - 1) q / 100\<close> of the sorted data, interpolated between its two neighbours.
  A \<open>q\<close> outside \<open>[0, 100]\<close> raises \<^verbatim>\<open>ValueError\<close>.
\<close>

definition np_percentile :: "real list \<Rightarrow> real \<Rightarrow> error + real" where
  "np_percentile x q =
     (if q < 0 \<or> q > 100 then Inl ValueError
      else if x = [] then Inl NotANumber
      else (let s = sort x; n = length x;
                h = real (n - 1) * q / 100;
                j = nat \<lfloor>h\<rfloor>;
                g = h - real j
            in Inr (s ! j + g * (s ! (min (j + 1) (n - 1)) - s ! j))))"

subsection \<open>Robust normalisation (\<^verbatim>\<open>helpers.py\<close>)\<close>

text \<open>\<^verbatim>\<open>np.clip(y, 0.0, 1.0)\<close> on one value.\<close>

definition clip01 :: "real \<Rightarrow> real" where
  "clip01 y = min 1 (max 0 y)"

text \<open>
  \<^verbatim>\<open>
  def _robust_norm(x, lo=5.0, hi=95.0, eps=1e-9):
      if x.size == 0: return x.copy()
      a, b = np.percentile(x, [lo, hi])
      if b - a < eps: return np.zeros_like(x, dtype=float)
      y = (x - a) / (b - a)
      return np.clip(y, 0.0, 1.0)
  \<close>
  Read over the reals, as the rest of the pipeline: exact as long as no operation overflows.
  \<open>robust_norm_ieee\<close> below is the reading with overflow.
\<close>

definition robust_norm :: "real list \<Rightarrow> real \<Rightarrow> real \<Rightarrow> real \<Rightarrow> error + real list" where
  "robust_norm x lo hi eps =
     (if x = [] then Inr x
      else bindE (np_percentile x lo) (\<lambda>a.
           bindE (np_percentile x hi) (\<lambda>b.
             if b - a < eps then Inr (replicate (length x) 0)
             else Inr (map (\<lambda>v. clip01 ((v - a) / (b - a))) x))))"

text \<open>The call with the default arguments, \<^verbatim>\<open>_robust_norm(x)\<close>.\<close>

definition robust_norm_default :: "real list \<Rightarrow> error + real list" where
  "robust_norm_default x = robust_norm x 5 95 (1 / 10 ^ 9)"

subsection \<open>Robust normalisation with overflow\<close>

text \<open>
  \<open>robust_norm\<close> computes in the reals, where no difference overflows. The definitions of
  this subsection follow the same source text over doubles that can overflow: a result of
  magnitude \<open>2^1024 - 2^970\<close> or more becomes an infinity, as IEEE round-to-nearest has it;
  every smaller result is kept exact, so rounding to 53 bits is still left out. The input
  array holds finite values.
\<close>

definition overflow_threshold :: real where
  "overflow_threshold = 2 ^ 1024 - 2 ^ 970"

definition dbl_of_real :: "real \<Rightarrow> dbl" where
  "dbl_of_real r = (if r \<ge> overflow_threshold then PosInf
                    else if r \<le> - overflow_threshold then NegInf
                    else Num r)"

fun dbl_neg :: "dbl \<Rightarrow> dbl" where
  "dbl_neg (Num a) = Num (- a)"
| "dbl_neg PosInf = NegInf"
| "dbl_neg NegInf = PosInf"
| "dbl_neg NaN = NaN"

text \<open>Addition: NaN is absorbing and \<open>inf + (-inf)\<close> is NaN.\<close>

fun dbl_add :: "dbl \<Rightarrow> dbl \<Rightarrow> dbl" where
  "dbl_add (Num a) (Num b) = dbl_of_real (a + b)"
| "dbl_add NaN _ = NaN"
| "dbl_add _ NaN = NaN"
| "dbl_add PosInf NegInf = NaN"
| "dbl_add NegInf PosInf = NaN"
| "dbl_add PosInf _ = PosInf"
| "dbl_add _ PosInf = PosInf"
| "dbl_add NegInf _ = NegInf"
| "dbl_add _ NegInf = NegInf"

definition dbl_sub :: "dbl \<Rightarrow> dbl \<Rightarrow> dbl" where
  "dbl_sub a b = dbl_add a (dbl_neg b)"

definition dbl_sign :: "dbl \<Rightarrow> int" where
  "dbl_sign a = (case a of Num r \<Rightarrow> (if r < 0 then - 1 else if r = 0 then 0 else 1)
                 | PosInf \<Rightarrow> 1 | NegInf \<Rightarrow> - 1 | NaN \<Rightarrow> 0)"

definition dbl_inf :: "int \<Rightarrow> dbl" where
  "dbl_inf s = (if s < 0 then NegInf else PosInf)"

text \<open>Multiplication: \<open>inf * 0\<close> is NaN.\<close>

fun dbl_mul :: "dbl \<Rightarrow> dbl \<Rightarrow> dbl" where
  "dbl_mul (Num a) (Num b) = dbl_of_real (a * b)"
| "dbl_mul NaN _ = NaN"
| "dbl_mul _ NaN = NaN"
| "dbl_mul a b = (if dbl_sign a * dbl_sign b = 0 then NaN else dbl_inf (dbl_sign a * dbl_sign b))"

text \<open>
  Division as NumPy does it, with a warning and no exception: \<open>0 / 0\<close> and \<open>inf / inf\<close> are
  NaN, a finite value over an infinity is zero, a non-zero value over zero is an infinity.
  A zero divisor is taken as \<open>+0\<close>, which is what \<^verbatim>\<open>b - a\<close> is for \<open>b = a\<close>.
\<close>

fun dbl_div :: "dbl \<Rightarrow> dbl \<Rightarrow> dbl" where
  "dbl_div NaN _ = NaN"
| "dbl_div _ NaN = NaN"
| "dbl_div (Num a) (Num b) =
     (if b = 0 then (if a = 0 then NaN else dbl_inf (dbl_sign (Num a))) else dbl_of_real (a / b))"
| "dbl_div (Num a) _ = Num 0"
| "dbl_div a (Num b) = dbl_inf (dbl_sign a * (if b < 0 then - 1 else 1))"
| "dbl_div _ _ = NaN"

text \<open>\<open>a < b\<close>: false as soon as one side is NaN.\<close>

fun dbl_less :: "dbl \<Rightarrow> dbl \<Rightarrow> bool" where
  "dbl_less NaN _ = False"
| "dbl_less _ NaN = False"
| "dbl_less (Num a) (Num b) = (a < b)"
| "dbl_less NegInf b = (b \<noteq> NegInf)"
| "dbl_less a PosInf = (a \<noteq> PosInf)"
| "dbl_less _ _ = False"

text \<open>\<^verbatim>\<open>np.clip(y, 0.0, 1.0)\<close> on one double: NaN stays NaN.\<close>

fun dbl_clip01 :: "dbl \<Rightarrow> dbl" where
  "dbl_clip01 (Num y) = Num (clip01 y)"
| "dbl_clip01 PosInf = Num 1"
| "dbl_clip01 NegInf = Num 0"
| "dbl_clip01 NaN = NaN"

text \<open>
  The interpolation step of \<^verbatim>\<open>np.percentile\<close> (NumPy's \<^verbatim>\<open>_lerp\<close>):
  \<^verbatim>\<open>
  diff_b_a = b - a
  lerp = a + diff_b_a * t
  lerp[t >= 0.5] = b - diff_b_a * (1 - t)
  \<close>
\<close>

definition lerp :: "real \<Rightarrow> real \<Rightarrow> real \<Rightarrow> dbl" where
  "lerp a b t =
     (let diff_b_a = dbl_sub (Num b) (Num a)
      in if t \<ge> 1 / 2 then dbl_sub (Num b) (dbl_mul diff_b_a (Num (1 - t)))
         else dbl_add (Num a) (dbl_mul diff_b_a (Num t)))"

definition np_percentile_ieee :: "real list \<Rightarrow> real \<Rightarrow> error + dbl" where
  "np_percentile_ieee x q =
     (if q < 0 \<or> q > 100 then Inl ValueError
      else if x = [] then Inr NaN
      else (let s = sort x; n = length x;
                h = real (n - 1) * q / 100;
                j = nat \<lfloor>h\<rfloor>;
                g = h - real j
            in Inr (lerp (s ! j) (s ! (min (j + 1) (n - 1))) g)))"

text \<open>\<^verbatim>\<open>_robust_norm\<close> once more, line by line as in \<open>robust_norm\<close>.\<close>

definition robust_norm_ieee :: "real list \<Rightarrow> real \<Rightarrow> real \<Rightarrow> real \<Rightarrow> error + dbl list" where
  "robust_norm_ieee x lo hi eps =
     (if x = [] then Inr []
      else bindE (np_percentile_ieee x lo) (\<lambda>a.
           bindE (np_percentile_ieee x hi) (\<lambda>b.
             if dbl_less (dbl_sub b a) (Num eps) then Inr (replicate (length x) (Num 0))
             else Inr (map (\<lambda>v. dbl_clip01 (dbl_div (dbl_sub (Num v) a) (dbl_sub b a))) x))))"

subsection \<open>Smoothing and differentiation (\<^verbatim>\<open>helpers.py\<close>)\<close>

text \<open>
  \<^verbatim>\<open>np.convolve(a, v, mode="valid")\<close>: NumPy swaps the arguments when \<open>v\<close> is the longer
  one; the result has \<open>max(M, N) - min(M, N) + 1\<close> entries.
\<close>

definition convolve_valid_ge :: "real list \<Rightarrow> real list \<Rightarrow> real list" where
  "convolve_valid_ge a v =
     map (\<lambda>i. sum_list (map (\<lambda>j. a ! (i + j) * v ! (length v - 1 - j)) [0..<length v]))
         [0..<length a - length v + 1]"

definition convolve_valid :: "real list \<Rightarrow> real list \<Rightarrow> real list" where
  "convolve_valid a v = (if length v > length a then convolve_valid_ge v a else convolve_valid_ge a v)"

text \<open>
  \<^verbatim>\<open>
  def _ma1d(x, k):
      k = int(max(1, k))
      if k == 1: return x.copy()
      pad = k // 2
      xp = np.pad(x, (pad, pad), mode="edge")
      return np.convolve(xp, np.ones(k) / k, mode="valid")
  \<close>
  \<^verbatim>\<open>np.pad\<close> in edge mode raises \<^verbatim>\<open>ValueError\<close> on an empty array.
\<close>

definition ma1d :: "real list \<Rightarrow> int \<Rightarrow> error + real list" where
  "ma1d x k0 =
     (let k = nat (max 1 k0)
      in if k = 1 then Inr x
         else (let pad = k div 2
               in if x = [] then Inl ValueError
                  else (let xp = replicate pad (hd x) @ x @ replicate pad (last x)
                        in Inr (convolve_valid xp (replicate k (1 / real k))))))"

type_synonym vec3 = "real \<times> real \<times> real"

definition vx :: "vec3 \<Rightarrow> real" where "vx v = fst v"
definition vy :: "vec3 \<Rightarrow> real" where "vy v = fst (snd v)"
definition vz :: "vec3 \<Rightarrow> real" where "vz v = snd (snd v)"

text \<open>
  \<^verbatim>\<open>out[:, c] = r\<close> for a column of length \<open>n\<close>: NumPy broadcasts a right-hand side of
  length \<open>n\<close> or \<open>1\<close> and raises \<^verbatim>\<open>ValueError\<close> on any other length.
\<close>

definition assign_column :: "nat \<Rightarrow> real list \<Rightarrow> error + real list" where
  "assign_column n r =
     (if length r = n then Inr r
      else if length r = 1 then Inr (replicate n (hd r))
      else Inl ValueError)"

text \<open>
  \<^verbatim>\<open>
  def _ma3(v, k):
      out = np.empty_like(v, dtype=float)
      out[:, 0] = _ma1d(v[:, 0], k)
      out[:, 1] = _ma1d(v[:, 1], k)
      out[:, 2] = _ma1d(v[:, 2], k)
      return out
  \<close>
\<close>

definition ma3 :: "vec3 list \<Rightarrow> int \<Rightarrow> error + vec3 list" where
  "ma3 v k =
     bindE (ma1d (map vx v) k) (\<lambda>r0. bindE (assign_column (length v) r0) (\<lambda>c0.
     bindE (ma1d (map vy v) k) (\<lambda>r1. bindE (assign_column (length v) r1) (\<lambda>c1.
     bindE (ma1d (map vz v) k) (\<lambda>r2. bindE (assign_column (length v) r2) (\<lambda>c2.
       Inr (zip c0 (zip c1 c2))))))))"

text \<open>
  \<^verbatim>\<open>_grad\<close>. Both branches write \<^verbatim>\<open>g[0]\<close>, \<^verbatim>\<open>g[-1]\<close> and, for \<open>n > 2\<close>, the interior by
  central differences; \<open>dq a b d\<close> is \<^verbatim>\<open>(a - b) / d\<close> on one row of the array. Reading
  \<^verbatim>\<open>x[1]\<close> raises \<^verbatim>\<open>IndexError\<close> when there are fewer than two rows. The divisions are
  those of the reals: \<open>dt \<noteq> 0\<close> is what the callers pass.
  \<^verbatim>\<open>
  g[0]    = (x[1] - x[0]) / dt
  g[-1]   = (x[-1] - x[-2]) / dt
  if n > 2: g[1:-1] = (x[2:] - x[:-2]) / (2 * dt)
  \<close>
\<close>

definition grad_rows :: "('r \<Rightarrow> 'r \<Rightarrow> real \<Rightarrow> 'r) \<Rightarrow> 'r list \<Rightarrow> real \<Rightarrow> error + 'r list" where
  "grad_rows dq x dt =
     (let n = length x
      in if n < 2 then Inl IndexError
         else Inr (map (\<lambda>i. if i = 0 then dq (x ! 1) (x ! 0) dt
                            else if i = n - 1 then dq (x ! (n - 1)) (x ! (n - 2)) dt
                            else dq (x ! (i + 1)) (x ! (i - 1)) (2 * dt)) [0..<n]))"

definition dq1 :: "real \<Rightarrow> real \<Rightarrow> real \<Rightarrow> real" where
  "dq1 a b d = (a - b) / d"

definition dq2 :: "real \<times> real \<Rightarrow> real \<times> real \<Rightarrow> real \<Rightarrow> real \<times> real" where
  "dq2 a b d = ((fst a - fst b) / d, (snd a - snd b) / d)"

definition dq3 :: "vec3 \<Rightarrow> vec3 \<Rightarrow> real \<Rightarrow> vec3" where
  "dq3 a b d = ((vx a - vx b) / d, (vy a - vy b) / d, (vz a - vz b) / d)"

text \<open>The 1-D branch (\<^verbatim>\<open>x.ndim == 1\<close>): a single sample has derivative \<open>0\<close>.\<close>

definition grad1 :: "real list \<Rightarrow> real \<Rightarrow> error + real list" where
  "grad1 x dt = (if length x = 1 then Inr [0] else grad_rows dq1 x dt)"

text \<open>The n-D branch on a \<open>(T, 2)\<close> array and on a \<open>(T, J, 3)\<close> array (a row is one frame).\<close>

definition grad_T2 :: "(real \<times> real) list \<Rightarrow> real \<Rightarrow> error + (real \<times> real) list" where
  "grad_T2 x dt = grad_rows dq2 x dt"

definition grad_TJ3 :: "vec3 list list \<Rightarrow> real \<Rightarrow> error + vec3 list list" where
  "grad_TJ3 x dt = grad_rows (\<lambda>a b d. map2 (\<lambda>p q. dq3 p q d) a b) x dt"

text \<open>\<^verbatim>\<open>np.linalg.norm\<close> along the last axis.\<close>

definition norm2 :: "real \<times> real \<Rightarrow> real" where
  "norm2 v = sqrt ((fst v)\<^sup>2 + (snd v)\<^sup>2)"

definition norm3 :: "vec3 \<Rightarrow> real" where
  "norm3 v = sqrt ((vx v)\<^sup>2 + (vy v)\<^sup>2 + (vz v)\<^sup>2)"

subsection \<open>Index checks and small helpers (\<^verbatim>\<open>helpers.py\<close>)\<close>

text \<open>\<^verbatim>\<open>(idx is not None) and (0 <= int(idx) < int(N))\<close>\<close>

definition valid_idx :: "int option \<Rightarrow> nat \<Rightarrow> bool" where
  "valid_idx idx N = (case idx of None \<Rightarrow> False | Some i \<Rightarrow> 0 \<le> i \<and> i < int N)"

definition safe_idx :: "int option \<Rightarrow> nat \<Rightarrow> int option" where
  "safe_idx idx J = (case idx of None \<Rightarrow> None | Some i \<Rightarrow> if 0 \<le> i \<and> i < int J then Some i else None)"

definition estimate_ground_level :: "real list \<Rightarrow> real \<Rightarrow> error + real" where
  "estimate_ground_level y_traj q = (if y_traj = [] then Inr 0 else np_percentile y_traj (q * 100))"

text \<open>
  \<^verbatim>\<open>_hysteresis_mask\<close>: on at \<open>s \<ge> thr_hi\<close>, off at \<open>s < thr_lo\<close>, else unchanged.
\<close>

fun hysteresis_from :: "bool \<Rightarrow> real list \<Rightarrow> real \<Rightarrow> real \<Rightarrow> bool list" where
  "hysteresis_from on [] thr_hi thr_lo = []"
| "hysteresis_from on (s # score) thr_hi thr_lo =
     (let on' = (if \<not> on \<and> s \<ge> thr_hi then True else if on \<and> s < thr_lo then False else on)
      in on' # hysteresis_from on' score thr_hi thr_lo)"

definition hysteresis_mask :: "real list \<Rightarrow> real \<Rightarrow> real \<Rightarrow> bool list" where
  "hysteresis_mask score thr_hi thr_lo = hysteresis_from False score thr_hi thr_lo"

text \<open>\<^verbatim>\<open>np.trapz(y, dx=1.0)\<close>\<close>

definition trapz :: "real list \<Rightarrow> real" where
  "trapz y = sum_list (map (\<lambda>i. (y ! i + y ! (i + 1)) / 2) [0..<length y - 1])"

text \<open>
  \<^verbatim>\<open>
  def _prominence_and_area(x, i, radius):
      lo, hi = max(0, i - radius), min(x.shape[0], i + radius + 1)
      win = x[lo:hi]
      peak = x[i]
      base = (np.min(win), np.min([x[lo] if lo > 0 else peak, x[hi - 1] if hi < x.shape[0] else peak]))
      prom = float(peak - max(base))
      area = float(np.trapz(np.clip(win, 0.0, None), dx=1.0))
  \<close>
  The caller passes a position \<open>i\<close> of \<open>x\<close> and \<open>radius \<ge> 1\<close>, so the window is not empty.
\<close>

definition prominence_and_area :: "real list \<Rightarrow> nat \<Rightarrow> int \<Rightarrow> real \<times> real" where
  "prominence_and_area x i radius =
     (let lo = nat (max 0 (int i - radius));
          hi = nat (min (int (length x)) (int i + radius + 1));
          win = slice x lo hi;
          peak = x ! i;
          base1 = Min (set win);
          base2 = min (if lo > 0 then x ! lo else peak) (if hi < length x then x ! (hi - 1) else peak);
          prom = peak - max base1 base2;
          area = trapz (map (max 0) win)
      in (prom, area))"

text \<open>
  \<^verbatim>\<open>
  def _estimate_period_from_autocorr(x, fps):
      if x.size < 8: return None
      x = (x - np.mean(x)) / (np.std(x) + 1e-9)
      ac = np.correlate(x, x, mode="full")[x.size - 1:]
      ac[:2] = 0.0
      k = int(np.argmax(ac))
      if k <= 0: return None
      return float(k) / float(fps)
  \<close>
\<close>

definition autocorr :: "real list \<Rightarrow> real list" where
  "autocorr x = map (\<lambda>k. sum_list (map (\<lambda>i. x ! (i + k) * x ! i) [0..<length x - k])) [0..<length x]"

definition estimate_period_from_autocorr :: "real list \<Rightarrow> real \<Rightarrow> error + real option" where
  "estimate_period_from_autocorr x fps =
     (if length x < 8 then Inr None
      else (let m = np_mean x; sd = np_std x;
                xn = map (\<lambda>v. (v - m) / (sd + 1 / 10 ^ 9)) x;
                ac = [0, 0] @ drop 2 (autocorr xn);
                k = argmax ac
            in if k \<le> 0 then Inr None
               else if fps = 0 then Inl ZeroDivisionError
               else Inr (Some (real k / fps))))"

subsection \<open>Motion frame stream\<close>

text \<open>
  A \<open>(T, N, 3)\<close> position array: \<open>T\<close> frames of \<open>N\<close> joints. \<open>N\<close> is kept beside the
  frames, as \<^verbatim>\<open>positions.shape[1]\<close> is defined for \<open>T = 0\<close> too. In a well-shaped array
  every frame has \<open>N\<close> joints.
\<close>

record pos_array =
  njoints :: nat
  frames :: "vec3 list list"

definition well_shaped :: "pos_array \<Rightarrow> bool" where
  "well_shaped p = list_all (\<lambda>fr. length fr = njoints p) (frames p)"

text \<open>\<^verbatim>\<open>positions[:, j, :]\<close>\<close>

definition column :: "pos_array \<Rightarrow> nat \<Rightarrow> vec3 list" where
  "column p j = map (\<lambda>fr. fr ! j) (frames p)"

text \<open>\<^verbatim>\<open>int(idx)\<close> of an index that passed \<^verbatim>\<open>_valid_idx\<close>.\<close>

definition idx_of :: "int option \<Rightarrow> nat" where
  "idx_of idx = (case idx of None \<Rightarrow> 0 | Some i \<Rightarrow> nat i)"

subsection \<open>Cue extractors (\<^verbatim>\<open>cues.py\<close>)\<close>

text \<open>
  The smoothing loop that opens \<^verbatim>\<open>_body_speed_trace\<close>, \<^verbatim>\<open>_cue_global_accel\<close> and
  \<^verbatim>\<open>_cue_reversal\<close>:
  \<^verbatim>\<open>
  Xs = np.empty_like(positions_sel, dtype=float)
  for j in range(positions_sel.shape[1]):
      Xs[:, j, :] = _ma3(positions_sel[:, j, :], smooth_win)
  \<close>
\<close>

definition smooth_sel :: "pos_array \<Rightarrow> int \<Rightarrow> error + vec3 list list" where
  "smooth_sel positions_sel smooth_win =
     bindE (mapE (\<lambda>j. ma3 (column positions_sel j) smooth_win) [0..<njoints positions_sel])
       (\<lambda>cols. Inr (map (\<lambda>t. map (\<lambda>c. c ! t) cols) [0..<length (frames positions_sel)]))"

text \<open>\<^verbatim>\<open>np.median(np.linalg.norm(V, axis=2), axis=1)\<close>\<close>

definition median_norm :: "vec3 list list \<Rightarrow> error + real list" where
  "median_norm V = mapE (\<lambda>fr. np_median (map norm3 fr)) V"

definition body_speed_trace :: "pos_array \<Rightarrow> real \<Rightarrow> int \<Rightarrow> error + real list" where
  "body_speed_trace positions_sel dt smooth_win =
     bindE (smooth_sel positions_sel smooth_win) (\<lambda>Xs.
     bindE (grad_TJ3 Xs dt) (\<lambda>V.
       median_norm V))"

text \<open>\<^verbatim>\<open>mask.astype(float) * w\<close>\<close>

definition mask_times :: "bool list \<Rightarrow> real list \<Rightarrow> real list" where
  "mask_times m w = map2 (\<lambda>b v. (if b then 1 else 0) * v) m w"

text \<open>
  \<^verbatim>\<open>
  def _cue_deceleration(speed, dt):
      ds_dt = _grad(speed, dt)
      decel = np.clip(-ds_dt, 0.0, None)
      raw = _local_minima(speed).astype(float) * decel
      return _robust_norm(raw)
  \<close>
\<close>

definition cue_deceleration :: "real list \<Rightarrow> real \<Rightarrow> error + real list" where
  "cue_deceleration speed dt =
     bindE (grad1 speed dt) (\<lambda>ds_dt.
       let decel = map (\<lambda>d. max 0 (- d)) ds_dt;
           raw = mask_times (local_minima speed) decel
       in robust_norm_default raw)"

definition cue_pelvis_drop :: "pos_array \<Rightarrow> int option \<Rightarrow> real \<Rightarrow> int \<Rightarrow> error + real list" where
  "cue_pelvis_drop positions pelvis_idx dt smooth_win =
     (let T = length (frames positions)
      in if \<not> valid_idx pelvis_idx (njoints positions) then Inr (replicate T 0)
         else bindE (ma3 (column positions (idx_of pelvis_idx)) smooth_win) (\<lambda>pelvis.
              let y = map vy pelvis
              in bindE (grad1 y dt) (\<lambda>v_y.
                 bindE (grad1 v_y dt) (\<lambda>a_y.
                   let mins = local_minima y;
                       bounce = map (max 0) a_y
                   in robust_norm_default (mask_times mins bounce)))))"

definition vsub3 :: "vec3 \<Rightarrow> vec3 \<Rightarrow> vec3" where
  "vsub3 a b = (vx a - vx b, vy a - vy b, vz a - vz b)"

text \<open>
  \<^verbatim>\<open>_leg_length\<close>: the median pelvis-to-foot distance over all frames and both feet,
  at least \<open>1e-6\<close>; \<open>1.0\<close> without a pelvis or without any foot.
\<close>

definition leg_length :: "pos_array \<Rightarrow> int option \<Rightarrow> int option \<Rightarrow> int option \<Rightarrow> error + real" where
  "leg_length positions pelvis_idx0 lfoot_idx0 rfoot_idx0 =
     (let J = njoints positions;
          pelvis_idx = safe_idx pelvis_idx0 J;
          lfoot_idx = safe_idx lfoot_idx0 J;
          rfoot_idx = safe_idx rfoot_idx0 J
      in if pelvis_idx = None \<or> (lfoot_idx = None \<and> rfoot_idx = None) then Inr 1
         else (let pel = column positions (idx_of pelvis_idx);
                   dl = (if lfoot_idx \<noteq> None
                         then [map2 (\<lambda>a b. norm3 (vsub3 a b)) pel (column positions (idx_of lfoot_idx))]
                         else []);
                   dr = (if rfoot_idx \<noteq> None
                         then [map2 (\<lambda>a b. norm3 (vsub3 a b)) pel (column positions (idx_of rfoot_idx))]
                         else []);
                   dists = dl @ dr
               in if dists = [] then Inr 1
                  else bindE (np_median (concat dists)) (\<lambda>m. Inr (max m (1 / 10 ^ 6)))))"

text \<open>
  \<^verbatim>\<open>_cue_foot_contact\<close>. The parameter \<^verbatim>\<open>q_speed\<close> is not read by the source.
  \<^verbatim>\<open>
  if not _valid_idx(foot_idx, N) or T == 0: return np.zeros(T)
  foot = _ma3(positions[:, int(foot_idx), :], smooth_win)
  y = foot[:, 1];  xy = foot[:, [0, 2]]
  g = _estimate_ground_level(y, ground_q)
  y_rel = np.maximum(0.0, y - g) / max(leg_scale, 1e-6)
  vxy = _grad(xy, dt);  sp = np.linalg.norm(vxy, axis=1)
  vy = _grad(y_rel, dt);  vy_abs = np.abs(vy)
  h_norm = _robust_norm(y_rel); s_norm = _robust_norm(sp); vy_norm = _robust_norm(vy_abs)
  base = (1.0 - h_norm) * (1.0 - s_norm)
  mins = _local_minima(y_rel).astype(float)
  raw = base * vy_norm * (1.0 + 0.3 * mins)
  return _robust_norm(raw)
  \<close>
\<close>

definition cue_foot_contact ::
  "pos_array \<Rightarrow> int option \<Rightarrow> real \<Rightarrow> int \<Rightarrow> real \<Rightarrow> real \<Rightarrow> real \<Rightarrow> error + real list" where
  "cue_foot_contact positions foot_idx dt smooth_win q_speed ground_q leg_scale =
     (let T = length (frames positions); N = njoints positions
      in if \<not> valid_idx foot_idx N \<or> T = 0 then Inr (replicate T 0)
         else bindE (ma3 (column positions (idx_of foot_idx)) smooth_win) (\<lambda>foot.
              let y = map vy foot;
                  xy = map (\<lambda>v. (vx v, vz v)) foot
              in bindE (estimate_ground_level y ground_q) (\<lambda>g.
                 let y_rel = map (\<lambda>v. max 0 (v - g) / max leg_scale (1 / 10 ^ 6)) y
                 in bindE (grad_T2 xy dt) (\<lambda>vxy.
                    let sp = map norm2 vxy
                    in bindE (grad1 y_rel dt) (\<lambda>v_y.
                       let vy_abs = map abs v_y
                       in bindE (robust_norm_default y_rel) (\<lambda>h_norm.
                          bindE (robust_norm_default sp) (\<lambda>s_norm.
                          bindE (robust_norm_default vy_abs) (\<lambda>vy_norm.
                            let mins = local_minima y_rel;
                                raw = map (\<lambda>i. (1 - h_norm ! i) * (1 - s_norm ! i) * vy_norm ! i
                                               * (1 + 3 / 10 * (if mins ! i then 1 else 0))) [0..<T]
                            in robust_norm_default raw))))))))"

definition cue_global_accel :: "pos_array \<Rightarrow> real \<Rightarrow> int \<Rightarrow> error + real list" where
  "cue_global_accel positions_sel dt smooth_win =
     bindE (smooth_sel positions_sel smooth_win) (\<lambda>Xs.
     bindE (grad_TJ3 Xs dt) (\<lambda>V.
     bindE (grad_TJ3 V dt) (\<lambda>A.
     bindE (median_norm A) (\<lambda>acc.
       robust_norm_default acc))))"

definition cue_reversal :: "pos_array \<Rightarrow> real \<Rightarrow> int \<Rightarrow> error + real list" where
  "cue_reversal positions_sel dt smooth_win =
     bindE (smooth_sel positions_sel smooth_win) (\<lambda>Xs.
     bindE (grad_TJ3 Xs dt) (\<lambda>V.
     bindE (median_norm V) (\<lambda>m.
     bindE (grad1 m dt) (\<lambda>dm.
       let rev = map2 (\<lambda>d b. max 0 (- d) * (if b then 1 else 0)) dm (local_minima m)
       in robust_norm_default rev))))"

subsection \<open>Tempo-aware refinement (\<^verbatim>\<open>ml_helpers.py\<close>)\<close>

text \<open>\<^verbatim>\<open>_as_int_sorted_unique\<close>: \<^verbatim>\<open>np.unique\<close> then \<^verbatim>\<open>sort\<close>.\<close>

definition as_int_sorted_unique :: "int list \<Rightarrow> int list" where
  "as_int_sorted_unique x = sort (remdups x)"

text \<open>
  \<^verbatim>\<open>b, a = np.polyfit(k, y, 1)\<close>: the least-squares line \<open>y \<approx> a + b k\<close>. NumPy raises
  \<^verbatim>\<open>TypeError\<close> on an empty \<open>k\<close> or on vectors of different lengths. When all abscissae
  are equal (here: a single point, \<open>k = [0]\<close>) the column scaling of the design matrix
  divides \<open>0\<close> by \<open>0\<close> and the least-squares solver raises \<^verbatim>\<open>LinAlgError\<close> on the NaN.
\<close>

definition polyfit1 :: "real list \<Rightarrow> real list \<Rightarrow> error + real \<times> real" where
  "polyfit1 k y =
     (if k = [] \<or> length k \<noteq> length y then Inl TypeError
      else (let n = real (length k);
                mk = sum_list k / n;
                my = sum_list y / n;
                sxx = sum_list (map (\<lambda>u. (u - mk)\<^sup>2) k);
                sxy = sum_list (map2 (\<lambda>u v. (u - mk) * (v - my)) k y)
            in if sxx = 0 then Inl LinAlgError
               else (let b = sxy / sxx in Inr (b, my - b * mk))))"

text \<open>
  The snapping loop of \<^verbatim>\<open>refine_events_with_tempo\<close>:
  \<^verbatim>\<open>
  for p in pred:
      c = int(round(p))
      lo = max(0, c - drift); hi = min(T, c + drift + 1)
      if hi <= lo: continue
      best = int(lo + np.argmax(score[lo:hi]))
      snapped.append(best)
  \<close>
\<close>

fun tempo_snap :: "real list \<Rightarrow> int \<Rightarrow> real list \<Rightarrow> int list" where
  "tempo_snap score drift [] = []"
| "tempo_snap score drift (p # pred) =
     (let c = py_round p;
          lo = max 0 (c - drift);
          hi = min (int (length score)) (c + drift + 1)
      in if hi \<le> lo then tempo_snap score drift pred
         else (lo + int (argmax (slice score (nat lo) (nat hi)))) # tempo_snap score drift pred)"

text \<open>
  The second half of \<^verbatim>\<open>refine_events_with_tempo\<close>, from the line fit on; \<open>ev\<close> is the
  clamped, sorted event list:
  \<^verbatim>\<open>
  k = np.arange(ev.size, dtype=float)
  b, a = np.polyfit(k, ev.astype(float), 1)
  if not np.isfinite(b) or b <= 0.5: return ev
  pred = a + b * k
  resid = ev - pred
  mad = np.median(np.abs(resid - np.median(resid))) + 1e-9
  good = np.abs(resid) <= (3.5 * mad)
  if good.sum() >= int(min_events) and good.sum() < ev.size:
      b, a = np.polyfit(k[good], ev[good].astype(float), 1)
      if not np.isfinite(b) or b <= 0.5: return ev
      pred = a + b * k
  drift = int(max(0, max_drift_frames))
  ... the snapping loop ...
  return _as_int_sorted_unique(snapped)
  \<close>
\<close>

definition tempo_fit_snap :: "int list \<Rightarrow> real list \<Rightarrow> int \<Rightarrow> int \<Rightarrow> error + int list" where
  "tempo_fit_snap ev score max_drift_frames min_events =
     (let k = map real [0..<length ev];
          evr = map real_of_int ev
      in bindE (polyfit1 k evr) (\<lambda>(b, a).
         if b \<le> 1 / 2 then Inr ev
         else (let pred = map (\<lambda>u. a + b * u) k;
                   resid = map2 (\<lambda>e q. e - q) evr pred
               in bindE (np_median resid) (\<lambda>mr.
                  bindE (np_median (map (\<lambda>r. \<bar>r - mr\<bar>) resid)) (\<lambda>md.
                  let mad = md + 1 / 10 ^ 9;
                      good = map (\<lambda>r. \<bar>r\<bar> \<le> 7 / 2 * mad) resid;
                      ngood = length (filter id good);
                      drift = max 0 max_drift_frames
                  in if int ngood \<ge> min_events \<and> ngood < length ev
                     then (let k2 = map fst (filter snd (zip k good));
                               ev2 = map fst (filter snd (zip evr good))
                           in bindE (polyfit1 k2 ev2) (\<lambda>(b2, a2).
                              if b2 \<le> 1 / 2 then Inr ev
                              else Inr (as_int_sorted_unique
                                     (tempo_snap score drift (map (\<lambda>u. a2 + b2 * u) k)))))
                     else Inr (as_int_sorted_unique (tempo_snap score drift pred)))))))"

text \<open>
  \<^verbatim>\<open>refine_events_with_tempo(events_idx, score, fps, max_drift_frames, min_events)\<close>; the
  \<^verbatim>\<open>verbose\<close> branch only prints, and \<open>fps\<close> is read by that branch alone.
  \<^verbatim>\<open>
  T = score.shape[0]
  ev = _as_int_sorted_unique(events_idx)
  if ev.size < int(min_events) or ev.size < 2 or T == 0: return ev
  ev = ev[(ev >= 0) & (ev < T)]
  if ev.size < int(min_events): return ev
  \<close>
\<close>

definition refine_events_with_tempo ::
  "int list \<Rightarrow> real list \<Rightarrow> real \<Rightarrow> int \<Rightarrow> int \<Rightarrow> error + int list" where
  "refine_events_with_tempo events_idx score fps max_drift_frames min_events =
     (let T = length score;
          ev0 = as_int_sorted_unique events_idx
      in if int (length ev0) < min_events \<or> length ev0 < 2 \<or> T = 0 then Inr ev0
         else (let ev = filter (\<lambda>e. e \<ge> 0 \<and> e < int T) ev0
               in if int (length ev) < min_events then Inr ev
                  else tempo_fit_snap ev score max_drift_frames min_events))"

subsection \<open>Fusion and event detection (\<^verbatim>\<open>BeatExtraction.py\<close>)\<close>

record beat_params_v1 =
  smooth_win :: int
  score_threshold :: real
  nms_separation_s :: real
  w_decel :: real
  w_pelvis :: real
  w_foot :: real
  foot_speed_q :: real
  ground_q :: real
  use_leg_norm :: bool
  adaptive_nms :: bool
  hysteresis_low_fac :: real
  phase_snap_radius :: int
  snap_recheck_radius :: int

record beat_params_v2 = beat_params_v1 +
  w_accel :: real
  w_reversal :: real
  prom_window_s :: real
  min_prominence :: real
  min_area :: real

text \<open>The dataclass defaults, \<^verbatim>\<open>BeatParamsV1()\<close> and \<^verbatim>\<open>BeatParamsV2()\<close>.\<close>

definition BeatParamsV1 :: beat_params_v1 where
  "BeatParamsV1 =
     \<lparr>smooth_win = 5, score_threshold = 6 / 10, nms_separation_s = 12 / 100,
      w_decel = 4 / 10, w_pelvis = 3 / 10, w_foot = 3 / 10,
      foot_speed_q = 2 / 10, ground_q = 5 / 100, use_leg_norm = True,
      adaptive_nms = True, hysteresis_low_fac = 8 / 10,
      phase_snap_radius = 3, snap_recheck_radius = 2\<rparr>"

definition BeatParamsV2 :: beat_params_v2 where
  "BeatParamsV2 =
     \<lparr>smooth_win = 5, score_threshold = 6 / 10, nms_separation_s = 12 / 100,
      w_decel = 4 / 10, w_pelvis = 3 / 10, w_foot = 3 / 10,
      foot_speed_q = 2 / 10, ground_q = 5 / 100, use_leg_norm = True,
      adaptive_nms = True, hysteresis_low_fac = 8 / 10,
      phase_snap_radius = 3, snap_recheck_radius = 2,
      w_accel = 2 / 10, w_reversal = 2 / 10,
      prom_window_s = 12 / 100, min_prominence = 1 / 10, min_area = 1 / 10\<rparr>"

text \<open>The returned dictionaries: six keys from v1, eight from v2.\<close>

record beats_v1 =
  beat_score :: "dbl list"
  candidate_mask :: "bool list"
  events_idx :: "int list"
  C_decel :: "dbl list"
  C_pelvis :: "dbl list"
  C_foot :: "dbl list"

record beats_v2 = beats_v1 +
  C_accel :: "dbl list"
  C_reversal :: "dbl list"

text \<open>
  \<^verbatim>\<open>
  Jidx_all = np.asarray(list(joint_indices), dtype=int)
  Jidx = Jidx_all[(Jidx_all >= 0) & (Jidx_all < N)]
  if Jidx.size == 0: Jidx = np.arange(N, dtype=int)
  sel = positions[:, Jidx, :]
  \<close>
\<close>

definition select_joints :: "pos_array \<Rightarrow> int list \<Rightarrow> pos_array" where
  "select_joints positions joint_indices =
     (let N = njoints positions;
          Jidx0 = map nat (filter (\<lambda>j. j \<ge> 0 \<and> j < int N) joint_indices);
          Jidx = (if Jidx0 = [] then [0..<N] else Jidx0)
      in \<lparr>njoints = length Jidx, frames = map (\<lambda>fr. map (\<lambda>j. fr ! j) Jidx) (frames positions)\<rparr>)"

text \<open>
  \<^verbatim>\<open>
  nms_sep = params.nms_separation_s
  if params.adaptive_nms:
      estT = _estimate_period_from_autocorr(score, fps)
      if estT is not None: nms_sep = max(0.08, min(0.25, 0.5 * estT))
  \<close>
\<close>

definition adaptive_nms_sep :: "bool \<Rightarrow> real \<Rightarrow> real list \<Rightarrow> real \<Rightarrow> error + real" where
  "adaptive_nms_sep adaptive nms_sep0 score fps =
     (if adaptive
      then bindE (estimate_period_from_autocorr score fps) (\<lambda>estT.
             case estT of None \<Rightarrow> Inr nms_sep0
             | Some t \<Rightarrow> Inr (max (8 / 100) (min (25 / 100) (1 / 2 * t))))
      else Inr nms_sep0)"

text \<open>
  One round of the phase-snap loop, the same text in v1 and v2:
  \<^verbatim>\<open>
  use_left = (C_lfoot[ei] >= C_rfoot[ei])
  fidx = left_foot_idx if use_left else right_foot_idx
  if not _valid_idx(fidx, N): snapped.append(int(ei)); continue
  y = positions[:, int(fidx), 1]
  vy = _grad(y, dt); ay = _grad(vy, dt); jy = np.abs(_grad(ay, dt))
  lo = max(0, int(ei) - params.phase_snap_radius)
  hi = min(T, int(ei) + params.phase_snap_radius + 1)
  win = np.arange(lo, hi)
  mins = _local_minima(y)[lo:hi]
  if mins.any():
      cand = win[mins]
      snapped.append(int(cand[np.argmin(np.abs(cand - ei))]))
  else:
      snapped.append(int(lo + np.argmax(jy[lo:hi])))
  \<close>
\<close>

definition snap_pick :: "real list \<Rightarrow> real list \<Rightarrow> nat \<Rightarrow> nat \<Rightarrow> nat \<Rightarrow> nat" where
  "snap_pick y jy lo hi ei =
     (let win = [lo..<hi];
          mins = slice (local_minima y) lo hi
      in if list_ex id mins
         then (let cand = map fst (filter snd (zip win mins))
               in cand ! argmin (map (\<lambda>c. \<bar>int c - int ei\<bar>) cand))
         else lo + argmax (slice jy lo hi))"

definition snap_event ::
  "pos_array \<Rightarrow> real \<Rightarrow> int \<Rightarrow> real list \<Rightarrow> real list \<Rightarrow> int option \<Rightarrow> int option \<Rightarrow> nat \<Rightarrow> error + nat" where
  "snap_event positions dt radius C_lfoot C_rfoot left_foot_idx right_foot_idx ei =
     (let T = length (frames positions); N = njoints positions;
          use_left = (C_lfoot ! ei \<ge> C_rfoot ! ei);
          fidx = (if use_left then left_foot_idx else right_foot_idx)
      in if \<not> valid_idx fidx N then Inr ei
         else (let y = map vy (column positions (idx_of fidx))
               in bindE (grad1 y dt) (\<lambda>v_y.
                  bindE (grad1 v_y dt) (\<lambda>a_y.
                  bindE (grad1 a_y dt) (\<lambda>j_y.
                    let jy = map abs j_y;
                        lo = nat (max 0 (int ei - radius));
                        hi = nat (min (int T) (int ei + radius + 1))
                    in Inr (snap_pick y jy lo hi ei))))))"

text \<open>The loop and \<^verbatim>\<open>events_idx = np.array(sorted(set(snapped)), dtype=int)\<close>.\<close>

definition phase_snap ::
  "pos_array \<Rightarrow> real \<Rightarrow> int \<Rightarrow> real list \<Rightarrow> real list \<Rightarrow> int option \<Rightarrow> int option \<Rightarrow> nat list \<Rightarrow> error + nat list" where
  "phase_snap positions dt radius C_lfoot C_rfoot left_foot_idx right_foot_idx events =
     bindE (mapE (snap_event positions dt radius C_lfoot C_rfoot left_foot_idx right_foot_idx) events)
       (\<lambda>snapped. Inr (sort (remdups snapped)))"

text \<open>The empty result both extractors return for \<open>T = 0\<close> or \<open>fps \<le> 0\<close>.\<close>

definition empty_v1 :: beats_v1 where
  "empty_v1 = \<lparr>beat_score = [], candidate_mask = [], events_idx = [],
               C_decel = [], C_pelvis = [], C_foot = []\<rparr>"

definition empty_v2 :: beats_v2 where
  "empty_v2 = \<lparr>beat_score = [], candidate_mask = [], events_idx = [],
               C_decel = [], C_pelvis = [], C_foot = [], C_accel = [], C_reversal = []\<rparr>"

text \<open>
  The event stage of \<^verbatim>\<open>extract_beats_v1\<close>, from the fused score to \<^verbatim>\<open>events_idx\<close>:
  \<^verbatim>\<open>
  nms_sep = ... (adaptive)
  events_idx = _nms_basic(score, fps, nms_sep)
  if params.phase_snap_radius > 0 and (_valid_idx(left_foot_idx, N) or _valid_idx(right_foot_idx, N)) \
     and events_idx.size:
      ... the phase-snap loop ...
      events_idx = np.array(sorted(set(snapped)), dtype=int)
  \<close>
\<close>

definition detect_events_v1 ::
  "pos_array \<Rightarrow> real \<Rightarrow> 'a beat_params_v1_scheme \<Rightarrow> real list \<Rightarrow> real list \<Rightarrow> real list
   \<Rightarrow> int option \<Rightarrow> int option \<Rightarrow> error + int list" where
  "detect_events_v1 positions fps params score C_lfoot C_rfoot left_foot_idx right_foot_idx =
     (let N = njoints positions; dt = 1 / fps
      in bindE (adaptive_nms_sep (adaptive_nms params) (nms_separation_s params) score fps) (\<lambda>nms_sep.
         let events = nms_basic score fps nms_sep
         in if phase_snap_radius params > 0
               \<and> (valid_idx left_foot_idx N \<or> valid_idx right_foot_idx N)
               \<and> events \<noteq> []
            then bindE (phase_snap positions dt (phase_snap_radius params)
                          C_lfoot C_rfoot left_foot_idx right_foot_idx events)
                   (\<lambda>snapped. Inr (map int snapped))
            else Inr (map int events)))"

text \<open>
  The path of \<^verbatim>\<open>extract_beats_v1\<close> for an array without joints (\<open>N = 0\<close>, so that the
  selection is empty too). \<^verbatim>\<open>np.median\<close> over the empty joint axis is NaN in every frame
  and raises nothing. From there on:
  \<^item> \<^verbatim>\<open>_cue_deceleration\<close>: \<^verbatim>\<open>_grad\<close>, \<^verbatim>\<open>np.clip\<close>, the product with the mask,
    \<^verbatim>\<open>np.percentile\<close> and \<^verbatim>\<open>np.clip\<close> all pass NaN on; \<open>b - a < eps\<close> is false on NaN;
    so \<^verbatim>\<open>C_decel\<close> is all NaN;
  \<^item> the fused sum has a NaN term in every frame, so \<^verbatim>\<open>score\<close> is all NaN;
  \<^item> \<open>s \<ge> thr_hi\<close> is false on NaN: the hysteresis mask is all false;
  \<^item> both comparisons of \<^verbatim>\<open>_local_maxima\<close> are false on NaN: \<^verbatim>\<open>idx\<close> is empty and
    \<^verbatim>\<open>_nms_basic\<close> returns it at once (the period estimate before it raises nothing and
    only sets \<^verbatim>\<open>nms_sep\<close>);
  \<^item> \<^verbatim>\<open>events_idx.size\<close> is \<open>0\<close>, so the phase-snap branch is skipped.
  The pelvis and foot cues do not read the selection and are computed as usual.
\<close>

definition no_joints_v1 ::
  "pos_array \<Rightarrow> real \<Rightarrow> beat_params_v1 \<Rightarrow> real \<Rightarrow> int option \<Rightarrow> int option \<Rightarrow> int option
   \<Rightarrow> error + beats_v1" where
  "no_joints_v1 positions dt params leg_scale pelvis_idx left_foot_idx right_foot_idx =
     (let T = length (frames positions); k = smooth_win params
      in bindE (cue_pelvis_drop positions pelvis_idx dt k) (\<lambda>Cp.
         bindE (cue_foot_contact positions left_foot_idx dt k
                  (foot_speed_q params) (ground_q params) leg_scale) (\<lambda>C_lfoot.
         bindE (cue_foot_contact positions right_foot_idx dt k
                  (foot_speed_q params) (ground_q params) leg_scale) (\<lambda>C_rfoot.
           Inr \<lparr>beat_score = replicate T NaN, candidate_mask = replicate T False,
                events_idx = [],
                C_decel = replicate T NaN, C_pelvis = map Num Cp,
                C_foot = map Num (map2 max C_lfoot C_rfoot)\<rparr>))))"

text \<open>
  \<^verbatim>\<open>extract_beats_v1\<close>. \<^verbatim>\<open>np.asarray(positions, dtype=float)\<close> raises \<^verbatim>\<open>ValueError\<close> on a
  ragged input; the \<^verbatim>\<open>assert\<close> on \<^verbatim>\<open>ndim\<close> and \<^verbatim>\<open>shape[2]\<close> holds by the type of
  \<open>positions\<close>. \<open>params = None\<close> stands for the defaults. \<open>body_speed_trace\<close> answers
  \<open>NotANumber\<close> exactly when the median is taken over no joint at all.
\<close>

definition extract_beats_v1 ::
  "pos_array \<Rightarrow> real \<Rightarrow> int list \<Rightarrow> beat_params_v1 option \<Rightarrow> int option \<Rightarrow> int option \<Rightarrow> int option
   \<Rightarrow> error + beats_v1" where
  "extract_beats_v1 positions fps joint_indices params0 pelvis_idx left_foot_idx right_foot_idx =
     (let params = (case params0 of None \<Rightarrow> BeatParamsV1 | Some q \<Rightarrow> q);
          T = length (frames positions)
      in if \<not> well_shaped positions then Inl ValueError
         else if T = 0 \<or> fps \<le> 0 then Inr empty_v1
         else (let dt = 1 / fps;
                   sel = select_joints positions joint_indices;
                   k = smooth_win params
               in bindE (if use_leg_norm params
                         then leg_length positions pelvis_idx left_foot_idx right_foot_idx
                         else Inr 1) (\<lambda>leg_scale.
                  case body_speed_trace sel dt k of
                    Inl e \<Rightarrow>
                      if e = NotANumber
                      then no_joints_v1 positions dt params leg_scale pelvis_idx left_foot_idx right_foot_idx
                      else Inl e
                  | Inr speed \<Rightarrow>
                  bindE (cue_deceleration speed dt) (\<lambda>Cd.
                  bindE (cue_pelvis_drop positions pelvis_idx dt k) (\<lambda>Cp.
                  bindE (cue_foot_contact positions left_foot_idx dt k
                           (foot_speed_q params) (ground_q params) leg_scale) (\<lambda>C_lfoot.
                  bindE (cue_foot_contact positions right_foot_idx dt k
                           (foot_speed_q params) (ground_q params) leg_scale) (\<lambda>C_rfoot.
                  let Cf = map2 max C_lfoot C_rfoot;
                      fused = map (\<lambda>i. w_decel params * Cd ! i + w_pelvis params * Cp ! i
                                          + w_foot params * Cf ! i) [0..<T]
                  in bindE (robust_norm_default fused) (\<lambda>score.
                     let thr_hi = score_threshold params;
                         thr_lo = score_threshold params * hysteresis_low_fac params;
                         mask_hyst = hysteresis_mask score thr_hi thr_lo
                     in bindE (detect_events_v1 positions fps params score C_lfoot C_rfoot
                                 left_foot_idx right_foot_idx) (\<lambda>events.
                           Inr \<lparr>beat_score = map Num score, candidate_mask = mask_hyst,
                                events_idx = events,
                                C_decel = map Num Cd, C_pelvis = map Num Cp,
                                C_foot = map Num Cf\<rparr>)))))))))"

text \<open>
  The hard recheck of v2:
  \<^verbatim>\<open>
  r = int(max(0, params.snap_recheck_radius))
  for ei in events_idx:
      lo = max(0, ei - r); hi = min(T, ei + r + 1)
      if np.max(score[lo:hi]) >= thr_hi: strong.append(int(ei))
  \<close>
\<close>

definition hard_recheck :: "real list \<Rightarrow> real \<Rightarrow> int \<Rightarrow> nat list \<Rightarrow> nat list" where
  "hard_recheck score thr_hi recheck_radius events =
     (let r = max 0 recheck_radius; T = length score
      in filter (\<lambda>ei. Max (set (slice score (nat (max 0 (int ei - r)))
                                           (nat (min (int T) (int ei + r + 1))))) \<ge> thr_hi) events)"

text \<open>
  The candidates of v2 and the score it hands to \<^verbatim>\<open>_nms_basic\<close>:
  \<^verbatim>\<open>
  prom_win = max(1, int(round(params.prom_window_s * fps)))
  cand_idx = np.where(_local_maxima(score) & mask_hyst)[0]
  keep = [i for i in cand_idx if prom >= min_prominence and area >= min_area]
  tmp = np.zeros_like(score); tmp[cand_idx] = score[cand_idx]
  \<close>
\<close>

definition gated_candidates :: "real list \<Rightarrow> bool list \<Rightarrow> real \<Rightarrow> real \<Rightarrow> real \<Rightarrow> real \<Rightarrow> nat list" where
  "gated_candidates score mask_hyst fps prom_window min_prom min_ar =
     (let prom_win = max 1 (py_round (prom_window * fps));
          cand_idx = np_where (map2 (\<and>) (local_maxima score) mask_hyst)
      in filter (\<lambda>i. case prominence_and_area score i prom_win of
                       (prom, area) \<Rightarrow> prom \<ge> min_prom \<and> area \<ge> min_ar) cand_idx)"

definition candidate_score :: "real list \<Rightarrow> nat list \<Rightarrow> real list" where
  "candidate_score score cand_idx = map (\<lambda>i. if i \<in> set cand_idx then score ! i else 0) [0..<length score]"

text \<open>
  The event stage of \<^verbatim>\<open>extract_beats_v2\<close>; the hard recheck and the tempo refinement run
  inside the phase-snap branch only:
  \<^verbatim>\<open>
  if cand_idx.size:
      tmp = np.zeros_like(score); tmp[cand_idx] = score[cand_idx]
      events_idx = _nms_basic(tmp, fps, nms_sep)
  else:
      events_idx = np.array([], dtype=int)
  if params.phase_snap_radius > 0 and (...) and events_idx.size:
      ... the phase-snap loop ...
      events_idx = np.array(sorted(set(snapped)), dtype=int)
      if events_idx.size:
          ... the hard recheck ...
          events_idx = np.array(strong, dtype=int)
      events_idx = refine_events_with_tempo(events_idx=events_idx, score=score, fps=fps,
                                            max_drift_frames=3, min_events=3, verbose=False)
  \<close>
\<close>

definition detect_events_v2 ::
  "pos_array \<Rightarrow> real \<Rightarrow> beat_params_v2 \<Rightarrow> real list \<Rightarrow> bool list \<Rightarrow> real list \<Rightarrow> real list
   \<Rightarrow> int option \<Rightarrow> int option \<Rightarrow> error + int list" where
  "detect_events_v2 positions fps params score mask_hyst C_lfoot C_rfoot left_foot_idx right_foot_idx =
     (let N = njoints positions; dt = 1 / fps;
          thr_hi = score_threshold params;
          cand_idx = gated_candidates score mask_hyst fps (prom_window_s params)
                       (min_prominence params) (min_area params)
      in bindE (adaptive_nms_sep (adaptive_nms params) (nms_separation_s params) score fps) (\<lambda>nms_sep.
         let events = (if cand_idx \<noteq> []
                       then nms_basic (candidate_score score cand_idx) fps nms_sep
                       else [])
         in if phase_snap_radius params > 0
               \<and> (valid_idx left_foot_idx N \<or> valid_idx right_foot_idx N)
               \<and> events \<noteq> []
            then bindE (phase_snap positions dt (phase_snap_radius params)
                          C_lfoot C_rfoot left_foot_idx right_foot_idx events)
                   (\<lambda>snapped.
                     let strong = (if snapped \<noteq> []
                                   then hard_recheck score thr_hi (snap_recheck_radius params) snapped
                                   else snapped)
                     in refine_events_with_tempo (map int strong) score fps 3 3)
            else Inr (map int events)))"

text \<open>
  The path of \<^verbatim>\<open>extract_beats_v2\<close> for an array without joints: as in v1, and
  \<^verbatim>\<open>C_accel\<close> and \<^verbatim>\<open>C_reversal\<close>, medians over the empty joint axis as well, are all NaN.
  The candidate list \<^verbatim>\<open>np.where(_local_maxima(score) & mask_hyst)\<close> is empty, so
  \<^verbatim>\<open>events_idx\<close> is the empty array and the phase-snap branch is skipped.
\<close>

definition no_joints_v2 ::
  "pos_array \<Rightarrow> real \<Rightarrow> beat_params_v2 \<Rightarrow> real \<Rightarrow> int option \<Rightarrow> int option \<Rightarrow> int option
   \<Rightarrow> error + beats_v2" where
  "no_joints_v2 positions dt params leg_scale pelvis_idx left_foot_idx right_foot_idx =
     (let T = length (frames positions); k = smooth_win params
      in bindE (cue_pelvis_drop positions pelvis_idx dt k) (\<lambda>Cp.
         bindE (cue_foot_contact positions left_foot_idx dt k
                  (foot_speed_q params) (ground_q params) leg_scale) (\<lambda>C_lfoot.
         bindE (cue_foot_contact positions right_foot_idx dt k
                  (foot_speed_q params) (ground_q params) leg_scale) (\<lambda>C_rfoot.
           Inr \<lparr>beat_score = replicate T NaN, candidate_mask = replicate T False,
                events_idx = [],
                C_decel = replicate T NaN, C_pelvis = map Num Cp,
                C_foot = map Num (map2 max C_lfoot C_rfoot),
                C_accel = replicate T NaN, C_reversal = replicate T NaN\<rparr>))))"

text \<open>\<^verbatim>\<open>extract_beats_v2\<close>\<close>

definition extract_beats_v2 ::
  "pos_array \<Rightarrow> real \<Rightarrow> int list \<Rightarrow> beat_params_v2 option \<Rightarrow> int option \<Rightarrow> int option \<Rightarrow> int option
   \<Rightarrow> error + beats_v2" where
  "extract_beats_v2 positions fps joint_indices params0 pelvis_idx left_foot_idx right_foot_idx =
     (let params = (case params0 of None \<Rightarrow> BeatParamsV2 | Some q \<Rightarrow> q);
          T = length (frames positions)
      in if \<not> well_shaped positions then Inl ValueError
         else if T = 0 \<or> fps \<le> 0 then Inr empty_v2
         else (let dt = 1 / fps;
                   sel = select_joints positions joint_indices;
                   k = smooth_win params
               in bindE (if use_leg_norm params
                         then leg_length positions pelvis_idx left_foot_idx right_foot_idx
                         else Inr 1) (\<lambda>leg_scale.
                  case body_speed_trace sel dt k of
                    Inl e \<Rightarrow>
                      if e = NotANumber
                      then no_joints_v2 positions dt params leg_scale pelvis_idx left_foot_idx right_foot_idx
                      else Inl e
                  | Inr speed \<Rightarrow>
                  bindE (cue_deceleration speed dt) (\<lambda>Cd.
                  bindE (cue_pelvis_drop positions pelvis_idx dt k) (\<lambda>Cp.
                  bindE (cue_foot_contact positions left_foot_idx dt k
                           (foot_speed_q params) (ground_q params) leg_scale) (\<lambda>C_lfoot.
                  bindE (cue_foot_contact positions right_foot_idx dt k
                           (foot_speed_q params) (ground_q params) leg_scale) (\<lambda>C_rfoot.
                  let Cf = map2 max C_lfoot C_rfoot
                  in bindE (cue_global_accel sel dt k) (\<lambda>Ca.
                     bindE (cue_reversal sel dt k) (\<lambda>Cr.
                     let fused = map (\<lambda>i. w_decel params * Cd ! i + w_pelvis params * Cp ! i
                                             + w_foot params * Cf ! i + w_accel params * Ca ! i
                                             + w_reversal params * Cr ! i) [0..<T]
                     in bindE (robust_norm_default fused) (\<lambda>score.
                        let thr_hi = score_threshold params;
                            thr_lo = score_threshold params * hysteresis_low_fac params;
                            mask_hyst = hysteresis_mask score thr_hi thr_lo
                        in bindE (detect_events_v2 positions fps params score mask_hyst C_lfoot C_rfoot
                                    left_foot_idx right_foot_idx) (\<lambda>events.
                              Inr \<lparr>beat_score = map Num score, candidate_mask = mask_hyst,
                                   events_idx = events,
                                   C_decel = map Num Cd, C_pelvis = map Num Cp, C_foot = map Num Cf,
                                   C_accel = map Num Ca, C_reversal = map Num Cr\<rparr>)))))))))))"

subsection \<open>Concrete clips\<close>

text \<open>
  Two clips of five frames and two joints, run at 10 fps. Joint 0 is the selected body
  joint, \<open>y = 0, 10, -4, -2, -6\<close>; joint 1 is the left foot. In \<open>demo_steps\<close> the foot height
  has a local minimum at frame 1 and at frame 3, in \<open>demo_merge\<close> only at frame 2.
\<close>

definition demo_steps :: pos_array where
  "demo_steps = \<lparr>njoints = 2, frames =
     [[(0, 0, 0), (0, 5, 0)], [(0, 10, 0), (0, 1, 0)], [(0, - 4, 0), (0, 3, 0)],
      [(0, - 2, 0), (0, 1, 0)], [(0, - 6, 0), (0, 5, 0)]]\<rparr>"

definition demo_merge :: pos_array where
  "demo_merge = \<lparr>njoints = 2, frames =
     [[(0, 0, 0), (0, 5, 0)], [(0, 10, 0), (0, 3, 0)], [(0, - 4, 0), (0, 1, 0)],
      [(0, - 2, 0), (0, 3, 0)], [(0, - 6, 0), (0, 5, 0)]]\<rparr>"

text \<open>The default parameters, without smoothing.\<close>

definition demo_params_v1 :: beat_params_v1 where
  "demo_params_v1 = BeatParamsV1\<lparr>smooth_win := 1\<rparr>"

definition demo_params_v2 :: beat_params_v2 where
  "demo_params_v2 = BeatParamsV2\<lparr>smooth_win := 1\<rparr>"

text \<open>Three frames of an array of shape \<open>(3, 0, 3)\<close>: no joint at all.\<close>

definition no_joints_clip :: pos_array where
  "no_joints_clip = \<lparr>njoints = 0, frames = [[], [], []]\<rparr>"

text \<open>One frame of one joint, and three frames of one joint that rises.\<close>

definition single_frame :: pos_array where
  "single_frame = \<lparr>njoints = 1, frames = [[(0, 0, 0)]]\<rparr>"

definition rising_clip :: pos_array where
  "rising_clip = \<lparr>njoints = 1, frames = [[(0, 1, 0)], [(0, 2, 0)], [(0, 3, 0)]]\<rparr>"

subsection \<open>The invariant of the suppression loop\<close>

text \<open>
  What the loop of \<^verbatim>\<open>_nms_basic\<close> keeps true: every picked frame lies in the array, all
  frames within \<open>win\<close> of a picked frame are marked taken, and two picked frames are more
  than \<open>win\<close> apart.
\<close>

definition nms_inv :: "nat \<Rightarrow> int \<Rightarrow> bool list \<Rightarrow> nat list \<Rightarrow> bool" where
  "nms_inv n win taken picked \<longleftrightarrow>
     length taken = n \<and> distinct picked \<and>
     (\<forall>p \<in> set picked. p < n \<and> (\<forall>j < n. \<bar>int j - int p\<bar> \<le> win \<longrightarrow> taken ! j)) \<and>
     (\<forall>p \<in> set picked. \<forall>q \<in> set picked. p \<noteq> q \<longrightarrow> \<bar>int p - int q\<bar> > win)"


subsection \<open>Event sets\<close>

text \<open>
  An event set over \<open>T\<close> frames: strictly increasing (so sorted and free of duplicates)
  frame indices in \<open>[0, T)\<close>.
\<close>

definition event_set :: "nat \<Rightarrow> int list \<Rightarrow> bool" where
  "event_set T ev \<longleftrightarrow> sorted_wrt (<) ev \<and> (\<forall>e \<in> set ev. 0 \<le> e \<and> e < int T)"

section \<open>Properties\<close>

subsection \<open>Local maxima and non-maximum suppression\<close>

lemma length_local_maxima: "length (local_maxima x) = length x"
  by (auto simp: local_maxima_def)

lemma local_maxima_nth:
  assumes "i < length x"
  shows "local_maxima x ! i \<longleftrightarrow> (0 < i \<and> i + 1 < length x \<and> x ! i > x ! (i - 1) \<and> x ! i \<ge> x ! (i + 1))"
proof (cases "length x \<ge> 3")
  case False
  then show ?thesis using assms by (auto simp: local_maxima_def)
next
  case True
  then obtain m where m: "length x = Suc (Suc (Suc m))"
    by (metis Suc_le_D numeral_3_eq_3 Suc_le_mono)
  let ?f = "\<lambda>i. x ! i > x ! (i - 1) \<and> x ! i \<ge> x ! (i + 1)"
  have lm: "local_maxima x = False # map ?f [1..<Suc (Suc m)] @ [False]"
    using True m by (simp add: local_maxima_def)
  consider "i = 0" | k where "i = Suc k" "k < Suc m" | "i = Suc (Suc m)"
    using assms m by (cases i) (auto simp: less_Suc_eq)
  then show ?thesis
  proof cases
    case 1
    then show ?thesis by (simp add: lm)
  next
    case 2
    have "[1..<Suc (Suc m)] ! k = Suc k" using 2 by (subst nth_upt) auto
    then show ?thesis using 2 m by (simp add: lm nth_append del: upt_Suc)
  next
    case 3
    then show ?thesis using m by (simp add: lm nth_append del: upt_Suc)
  qed
qed

lemma set_np_where: "set (np_where m) = {i. i < length m \<and> m ! i}"
  by (auto simp: np_where_def)

lemma length_set_slice: "length (set_slice t lo hi) = length t"
  by (simp add: set_slice_def)

lemma set_slice_nth: "j < length t \<Longrightarrow> set_slice t lo hi ! j = ((lo \<le> j \<and> j < hi) \<or> t ! j)"
  by (auto simp: set_slice_def)

lemma nms_loop_subset: "set (nms_loop n win order taken picked) \<subseteq> set order \<union> set picked"
  by (induction n win order taken picked rule: nms_loop.induct) (auto simp: Let_def split: if_splits)

lemma nms_inv_step:
  assumes inv: "nms_inv n win taken picked" and i: "i < n" and nt: "\<not> taken ! i" and w: "0 \<le> win"
  shows "nms_inv n win (set_slice taken (nat (max 0 (int i - win))) (nat (min (int n) (int i + win + 1)))) (picked @ [i])"
proof -
  let ?lo = "nat (max 0 (int i - win))" and ?hi = "nat (min (int n) (int i + win + 1))"
  from inv have len: "length taken = n" by (simp add: nms_inv_def)
  have far: "\<bar>int i - int p\<bar> > win" if "p \<in> set picked" for p
  proof (rule ccontr)
    assume "\<not> \<bar>int i - int p\<bar> > win"
    then have "\<bar>int i - int p\<bar> \<le> win" by simp
    with inv that i have "taken ! i" by (auto simp: nms_inv_def)
    with nt show False by simp
  qed
  have notin: "i \<notin> set picked" using far w by fastforce
  have mark: "set_slice taken ?lo ?hi ! j" if "j < n" "\<bar>int j - int i\<bar> \<le> win" for j
    using that len by (simp add: set_slice_nth) linarith
  have keep: "set_slice taken ?lo ?hi ! j" if "j < n" "taken ! j" for j
    using that len by (simp add: set_slice_nth)
  have a1: "length (set_slice taken ?lo ?hi) = n" by (simp add: length_set_slice len)
  have a2: "distinct (picked @ [i])" using inv notin by (simp add: nms_inv_def)
  have a3: "p < n \<and> (\<forall>j<n. \<bar>int j - int p\<bar> \<le> win \<longrightarrow> set_slice taken ?lo ?hi ! j)"
    if p: "p \<in> set (picked @ [i])" for p
  proof (cases "p = i")
    case True
    then show ?thesis using i mark by blast
  next
    case False
    with p have "p \<in> set picked" by simp
    with inv have "p < n" "\<forall>j<n. \<bar>int j - int p\<bar> \<le> win \<longrightarrow> taken ! j"
      by (auto simp: nms_inv_def)
    then show ?thesis using keep by blast
  qed
  have a4: "win < \<bar>int p - int q\<bar>"
    if p: "p \<in> set (picked @ [i])" and q: "q \<in> set (picked @ [i])" and ne: "p \<noteq> q" for p q
  proof -
    consider "p = i" "q \<in> set picked" | "q = i" "p \<in> set picked" | "p \<in> set picked" "q \<in> set picked"
      using p q ne by auto
    then show ?thesis
    proof cases
      case 1 then show ?thesis using far by simp
    next
      case 2 then show ?thesis using far[of p] by linarith
    next
      case 3 then show ?thesis using inv ne by (simp add: nms_inv_def)
    qed
  qed
  show ?thesis
    unfolding nms_inv_def using a1 a2 a3 a4 by blast
qed

lemma nms_loop_inv:
  "nms_inv n win taken picked \<Longrightarrow> 0 \<le> win \<Longrightarrow> \<forall>i \<in> set order. i < n \<Longrightarrow>
   \<exists>taken'. nms_inv n win taken' (nms_loop n win order taken picked)"
proof (induction n win order taken picked rule: nms_loop.induct)
  case (1 n win taken picked)
  then show ?case by auto
next
  case (2 n win i order taken picked)
  show ?case
  proof (cases "taken ! i")
    case True
    then show ?thesis using 2 by simp
  next
    case False
    have "nms_inv n win (set_slice taken (nat (max 0 (int i - win))) (nat (min (int n) (int i + win + 1)))) (picked @ [i])"
      using nms_inv_step[OF "2.prems"(1) _ False "2.prems"(2)] "2.prems"(3) by simp
    then show ?thesis using False 2 by (simp add: Let_def)
  qed
qed

lemma nms_inv_init: "nms_inv n win (replicate n False) []"
  by (simp add: nms_inv_def)

lemma nms_win_pos: "1 \<le> nms_win fps s"
  by (simp add: nms_win_def)

lemma set_argsort: "set (argsort v) = {0..<length v}"
  by (simp add: argsort_def)

lemma nms_order_subset:
  "set (map (\<lambda>p. idx ! p) (rev (argsort (map f idx)))) = set idx"
proof -
  have "set (map (\<lambda>p. idx ! p) (rev (argsort (map f idx)))) = (\<lambda>p. idx ! p) ` {0..<length idx}"
    by (simp add: set_argsort)
  also have "\<dots> = set idx"
    by (auto simp: set_conv_nth)
  finally show ?thesis .
qed

lemma nms_basic_set_subset: "set (nms_basic score fps s) \<subseteq> set (np_where (local_maxima score))"
proof (cases "np_where (local_maxima score) = []")
  case True
  then show ?thesis by (simp add: nms_basic_def)
next
  case False
  let ?idx = "np_where (local_maxima score)"
  let ?order = "map (\<lambda>p. ?idx ! p) (rev (argsort (map (\<lambda>i. score ! i) ?idx)))"
  have "set (nms_basic score fps s) = set (nms_loop (length score) (nms_win fps s) ?order (replicate (length score) False) [])"
    using False by (simp add: nms_basic_def Let_def)
  also have "\<dots> \<subseteq> set ?order \<union> set []" by (rule nms_loop_subset)
  also have "\<dots> = set ?idx" using nms_order_subset[of ?idx] by simp
  finally show ?thesis .
qed

lemma nms_basic_inv:
  "\<exists>taken. nms_inv (length score) (nms_win fps s) taken (nms_basic score fps s)"
proof (cases "np_where (local_maxima score) = []")
  case True
  then have "nms_basic score fps s = []" by (simp add: nms_basic_def)
  then show ?thesis using nms_inv_init[of "length score" "nms_win fps s"] by auto
next
  case False
  let ?idx = "np_where (local_maxima score)"
  let ?order = "map (\<lambda>p. ?idx ! p) (rev (argsort (map (\<lambda>i. score ! i) ?idx)))"
  have "set ?order = set ?idx" by (rule nms_order_subset)
  then have "\<forall>i \<in> set ?order. i < length score"
    by (simp add: set_np_where length_local_maxima del: set_map set_rev)
  with nms_loop_inv[OF nms_inv_init, of "nms_win fps s" ?order "length score"] nms_win_pos[of fps s]
  obtain t where "nms_inv (length score) (nms_win fps s) t (nms_loop (length score) (nms_win fps s) ?order (replicate (length score) False) [])"
    by force
  then have "nms_inv (length score) (nms_win fps s) t (nms_basic score fps s)"
    using False by (simp add: nms_basic_def Let_def nms_inv_def)
  then show ?thesis ..
qed

lemma distinct_nms_basic: "distinct (nms_basic score fps s)"
  using nms_basic_inv[of score fps s] by (auto simp: nms_inv_def)

lemma sorted_nms_basic: "sorted (nms_basic score fps s)"
  by (simp add: nms_basic_def Let_def np_where_def)



text \<open>
  C10. Every frame returned by \<^verbatim>\<open>_nms_basic\<close> is a local maximum of the score: strictly
  above its left neighbour, at least its right neighbour, and neither the first nor the
  last frame.
\<close>

theorem nms_basic_local_max:
  "\<forall>i \<in> set (nms_basic score fps min_sep_s).
     0 < i \<and> i + 1 < length score \<and> score ! i > score ! (i - 1) \<and> score ! i \<ge> score ! (i + 1)"
proof
  fix i assume "i \<in> set (nms_basic score fps min_sep_s)"
  then have "i \<in> set (np_where (local_maxima score))" using nms_basic_set_subset by blast
  then have "i < length score" "local_maxima score ! i"
    by (auto simp: set_np_where length_local_maxima)
  then show "0 < i \<and> i + 1 < length score \<and> score ! i > score ! (i - 1) \<and> score ! i \<ge> score ! (i + 1)"
    using local_maxima_nth by blast
qed

theorem nms_basic_local_max_witness:
  "nms_basic [0, 1, 0, 1, 0, 1, 0, 1, 0] 1 2 = [3, 7] \<and>
   (0::nat) < 3 \<and> 3 + 1 < length [0, 1, 0, 1, 0, 1, 0, 1, 0 :: real] \<and>
   [0, 1, 0, 1, 0, 1, 0, 1, 0 :: real] ! 3 > [0, 1, 0, 1, 0, 1, 0, 1, 0] ! (3 - 1) \<and>
   [0, 1, 0, 1, 0, 1, 0, 1, 0 :: real] ! 3 \<ge> [0, 1, 0, 1, 0, 1, 0, 1, 0] ! (3 + 1)"
proof -
  have e: "nms_basic [0, 1, 0, 1, 0, 1, 0, 1, 0] 1 2 = [3, 7]"
    by code_simp
  have "3 \<in> set (nms_basic [0, 1, 0, 1, 0, 1, 0, 1, 0] 1 2)"
    unfolding e by simp
  with nms_basic_local_max[of "[0, 1, 0, 1, 0, 1, 0, 1, 0]" 1 2]
  have "0 < (3::nat) \<and> 3 + 1 < length [0, 1, 0, 1, 0, 1, 0, 1, 0 :: real] \<and>
        [0, 1, 0, 1, 0, 1, 0, 1, 0 :: real] ! 3 > [0, 1, 0, 1, 0, 1, 0, 1, 0] ! (3 - 1) \<and>
        [0, 1, 0, 1, 0, 1, 0, 1, 0 :: real] ! 3 \<ge> [0, 1, 0, 1, 0, 1, 0, 1, 0] ! (3 + 1)"
    by blast
  then show ?thesis using e by blast
qed

subsection \<open>Robust normalisation\<close>

lemma clip01_range: "0 \<le> clip01 y \<and> clip01 y \<le> 1"
  by (simp add: clip01_def)

lemma np_percentile_total:
  "0 \<le> q \<Longrightarrow> q \<le> 100 \<Longrightarrow> x \<noteq> [] \<Longrightarrow> \<exists>a. np_percentile x q = Inr a"
  by (simp add: np_percentile_def Let_def)

lemma robust_norm_real_unit_interval:
  assumes "0 \<le> lo" "lo \<le> 100" "0 \<le> hi" "hi \<le> 100"
  shows "\<exists>y. robust_norm x lo hi eps = Inr y \<and> length y = length x \<and>
           (\<forall>v \<in> set y. 0 \<le> v \<and> v \<le> 1)"
proof (cases "x = []")
  case True
  then show ?thesis by (simp add: robust_norm_def)
next
  case False
  from np_percentile_total[OF assms(1,2) False] obtain a where a: "np_percentile x lo = Inr a" ..
  from np_percentile_total[OF assms(3,4) False] obtain b where b: "np_percentile x hi = Inr b" ..
  show ?thesis
  proof (cases "b - a < eps")
    case True
    then show ?thesis using False a b by (simp add: robust_norm_def bindE_def)
  next
    case nd: False
    then show ?thesis using False a b by (auto simp: robust_norm_def bindE_def clip01_range)
  qed
qed

text \<open>
  C7. The array \<open>[0, 1e308, -1e308]\<close> is finite. Its 5th and 95th percentiles are
  \<open>-9e307\<close> and \<open>9e307\<close>; their difference \<open>1.8e308\<close> overflows to \<open>+inf\<close>, which is not
  below \<open>eps\<close>, and so does \<open>1e308 - a\<close>. The second value of the result is
  \<open>inf / inf\<close>, NaN, which \<^verbatim>\<open>np.clip\<close> passes on: the result is not within \<open>[0, 1]\<close>.
\<close>

theorem robust_norm_overflow:
  "np_percentile_ieee [0, 10 ^ 308, - (10 ^ 308)] 5 = Inr (Num (- (9 * 10 ^ 307)))
   \<and> np_percentile_ieee [0, 10 ^ 308, - (10 ^ 308)] 95 = Inr (Num (9 * 10 ^ 307))
   \<and> dbl_sub (Num (9 * 10 ^ 307)) (Num (- (9 * 10 ^ 307))) = PosInf
   \<and> robust_norm_ieee [0, 10 ^ 308, - (10 ^ 308)] 5 95 (1 / 10 ^ 9) = Inr [Num 0, NaN, Num 0]"
  by (simp add: robust_norm_ieee_def np_percentile_ieee_def lerp_def bindE_def dbl_sub_def
      dbl_of_real_def overflow_threshold_def clip01_def dbl_inf_def dbl_sign_def Let_def)

subsection \<open>Event sets of the two extractors\<close>

lemma argmax_from_range:
  "argmax_from vs i best bv = best \<or> (i \<le> argmax_from vs i best bv \<and> argmax_from vs i best bv < i + length vs)"
proof (induction vs arbitrary: i best bv)
  case Nil
  then show ?case by simp
next
  case (Cons v vs)
  show ?case
  proof (cases "v > bv")
    case True
    with Cons[of "Suc i" i v] show ?thesis by auto
  next
    case False
    with Cons[of "Suc i" best bv] show ?thesis by auto
  qed
qed

lemma argmax_less: "x \<noteq> [] \<Longrightarrow> argmax x < length x"
proof (cases x)
  case Nil
  then show "x \<noteq> [] \<Longrightarrow> ?thesis" by simp
next
  case (Cons v vs)
  then show ?thesis using argmax_from_range[of vs 1 0 v] by (auto simp: argmax_def)
qed

lemma argmin_from_range:
  "argmin_from vs i best bv = best \<or> (i \<le> argmin_from vs i best bv \<and> argmin_from vs i best bv < i + length vs)"
proof (induction vs arbitrary: i best bv)
  case Nil
  then show ?case by simp
next
  case (Cons v vs)
  show ?case
  proof (cases "v < bv")
    case True
    with Cons[of "Suc i" i v] show ?thesis by auto
  next
    case False
    with Cons[of "Suc i" best bv] show ?thesis by auto
  qed
qed

lemma argmin_less: "x \<noteq> [] \<Longrightarrow> argmin x < length x"
proof (cases x)
  case Nil
  then show "x \<noteq> [] \<Longrightarrow> ?thesis" by simp
next
  case (Cons v vs)
  then show ?thesis using argmin_from_range[of vs 1 0 v] by (auto simp: argmin_def)
qed

lemma argmax_le_length: "argmax x \<le> length x"
  by (cases "x = []") (auto simp: argmax_def dest: argmax_less less_imp_le)

lemma length_slice: "length (slice x lo hi) = min (hi - lo) (length x - lo)"
  by (simp add: slice_def)

lemma mapE_Inr_all:
  "mapE f xs = Inr ys \<Longrightarrow> length ys = length xs \<and> (\<forall>i < length xs. f (xs ! i) = Inr (ys ! i))"
proof (induction xs arbitrary: ys)
  case Nil
  then show ?case by simp
next
  case (Cons x xs)
  then obtain y ys' where y: "f x = Inr y" and ys': "mapE f xs = Inr ys'" and e: "ys = y # ys'"
    by (auto split: sum.splits)
  from Cons.IH[OF ys'] show ?case using y e by (auto simp: nth_Cons split: nat.splits)
qed

lemma mapE_set:
  assumes "mapE f xs = Inr ys" "y \<in> set ys"
  shows "\<exists>x \<in> set xs. f x = Inr y"
proof -
  from assms(2) obtain i where i: "i < length ys" "ys ! i = y" by (auto simp: in_set_conv_nth)
  with mapE_Inr_all[OF assms(1)] show ?thesis by (metis nth_mem)
qed

lemma bindE_Inr: "bindE m f = Inr r \<Longrightarrow> \<exists>v. m = Inr v \<and> f v = Inr r"
  by (cases m) (auto simp: bindE_def)

lemma bindE_InrE:
  assumes "bindE m f = Inr r"
  obtains v where "m = Inr v" "f v = Inr r"
  using assms by (cases m) (auto simp: bindE_def)

lemma snap_pick_range:
  assumes "lo < hi"
  shows "snap_pick y jy lo hi ei < hi"
proof -
  let ?mins = "slice (local_minima y) lo hi"
  let ?cand = "map fst (filter snd (zip [lo..<hi] ?mins))"
  show ?thesis
  proof (cases "list_ex id ?mins")
    case True
    then obtain k where k: "k < length ?mins" "?mins ! k" by (auto simp: list_ex_iff in_set_conv_nth)
    have lm: "length ?mins \<le> hi - lo" by (simp add: length_slice)
    have "([lo..<hi] ! k, ?mins ! k) \<in> set (zip [lo..<hi] ?mins)"
      unfolding set_zip using k lm by (intro CollectI exI[of _ k]) simp
    then have "([lo..<hi] ! k, True) \<in> set (filter snd (zip [lo..<hi] ?mins))"
      using k by auto
    then have "filter snd (zip [lo..<hi] ?mins) \<noteq> []" by (metis empty_iff list.set(1))
    then have ne: "?cand \<noteq> []" by simp
    have sub: "set ?cand \<subseteq> {lo..<hi}"
      by (auto dest: set_zip_leftD)
    have "snap_pick y jy lo hi ei = ?cand ! argmin (map (\<lambda>c. \<bar>int c - int ei\<bar>) ?cand)"
      using True by (simp add: snap_pick_def Let_def)
    moreover have "argmin (map (\<lambda>c. \<bar>int c - int ei\<bar>) ?cand) < length ?cand"
      using argmin_less[of "map (\<lambda>c. \<bar>int c - int ei\<bar>) ?cand"] ne by simp
    ultimately have "snap_pick y jy lo hi ei \<in> set ?cand" using nth_mem by metis
    with sub show ?thesis by auto
  next
    case False
    let ?sl = "slice jy lo hi"
    have e: "snap_pick y jy lo hi ei = lo + argmax ?sl" using False by (simp add: snap_pick_def Let_def)
    show ?thesis
    proof (cases "?sl = []")
      case True
      then show ?thesis using e assms by (simp add: argmax_def)
    next
      case ne: False
      have "argmax ?sl < length ?sl" using argmax_less[OF ne] .
      also have "\<dots> \<le> hi - lo" by (simp add: length_slice)
      finally show ?thesis using e assms by linarith
    qed
  qed
qed

lemma snap_event_range:
  assumes s: "snap_event positions dt radius Cl Cr lf rf ei = Inr e"
    and ei: "ei < length (frames positions)" and r: "0 \<le> radius"
  shows "e < length (frames positions)"
proof -
  let ?T = "length (frames positions)"
  let ?lo = "nat (max 0 (int ei - radius))"
  let ?hi = "nat (min (int ?T) (int ei + radius + 1))"
  have lohi: "?lo < ?hi" "?hi \<le> ?T" using ei r by auto
  have "e = ei \<or> (\<exists>y jy. e = snap_pick y jy ?lo ?hi ei)"
    using s unfolding snap_event_def Let_def
    by (auto split: if_splits dest!: bindE_Inr)
  then show ?thesis
  proof
    assume "e = ei"
    then show ?thesis using ei by simp
  next
    assume "\<exists>y jy. e = snap_pick y jy ?lo ?hi ei"
    then obtain y jy where "e = snap_pick y jy ?lo ?hi ei" by blast
    then have "e < ?hi" using snap_pick_range[OF lohi(1)] by simp
    then show ?thesis using lohi(2) by linarith
  qed
qed

lemma strict_sorted_sort_remdups: "sorted_wrt (<) (sort (remdups (xs :: 'a::linorder list)))"
  by (simp add: strict_sorted_iff)

lemma phase_snap_range:
  assumes s: "phase_snap positions dt radius Cl Cr lf rf events = Inr out"
    and ev: "\<forall>e \<in> set events. e < length (frames positions)" and r: "0 \<le> radius"
  shows "sorted_wrt (<) out \<and> (\<forall>e \<in> set out. e < length (frames positions))"
proof -
  from s obtain snapped where m: "mapE (snap_event positions dt radius Cl Cr lf rf) events = Inr snapped"
    and o: "out = sort (remdups snapped)"
    by (auto simp: phase_snap_def dest!: bindE_Inr)
  have "\<forall>e \<in> set snapped. e < length (frames positions)"
  proof
    fix e assume "e \<in> set snapped"
    with mapE_set[OF m] obtain ei where "ei \<in> set events" "snap_event positions dt radius Cl Cr lf rf ei = Inr e"
      by blast
    then show "e < length (frames positions)" using snap_event_range ev r by blast
  qed
  then show ?thesis using o by (simp add: strict_sorted_sort_remdups)
qed

lemma as_int_sorted_unique_props:
  "sorted_wrt (<) (as_int_sorted_unique x) \<and> set (as_int_sorted_unique x) = set x"
  by (simp add: as_int_sorted_unique_def strict_sorted_iff)

lemma as_int_sorted_unique_id: "sorted_wrt (<) x \<Longrightarrow> as_int_sorted_unique x = x"
  by (simp add: as_int_sorted_unique_def strict_sorted_iff distinct_remdups_id sorted_sort_id)

lemma tempo_snap_range: "\<forall>e \<in> set (tempo_snap score drift pred). 0 \<le> e \<and> e < int (length score)"
proof (induction pred)
  case Nil
  then show ?case by simp
next
  case (Cons p pred)
  let ?c = "py_round p"
  let ?lo = "max 0 (?c - drift)" and ?hi = "min (int (length score)) (?c + drift + 1)"
  show ?case
  proof (cases "?hi \<le> ?lo")
    case True
    then show ?thesis using Cons by (simp add: Let_def)
  next
    case False
    let ?sl = "slice score (nat ?lo) (nat ?hi)"
    have "nat ?hi \<le> length score" by simp
    then have "nat ?hi - nat ?lo \<le> length score - nat ?lo" by (rule diff_le_mono)
    then have "length ?sl = nat ?hi - nat ?lo" unfolding length_slice by (rule min_absorb1)
    then have "?sl \<noteq> []" using False by auto
    then have "argmax ?sl < nat ?hi - nat ?lo" using argmax_less[of ?sl] \<open>length ?sl = nat ?hi - nat ?lo\<close> by simp
    then have "0 \<le> ?lo + int (argmax ?sl) \<and> ?lo + int (argmax ?sl) < int (length score)"
      using False by linarith
    then show ?thesis using Cons False by (simp add: Let_def)
  qed
qed

lemma sorted_wrt_filter_less: "sorted_wrt (<) xs \<Longrightarrow> sorted_wrt (<) (filter P xs)"
  by (simp add: sorted_wrt_filter)

lemma tempo_fit_snap_cases:
  assumes "tempo_fit_snap ev score drift min_events = Inr out"
    and "P ev" and "\<And>d pr. P (as_int_sorted_unique (tempo_snap score d pr))"
  shows "P out"
  using assms unfolding tempo_fit_snap_def Let_def
  by (auto split: if_splits prod.splits dest!: bindE_Inr)

lemma refine_events_cases:
  assumes r: "refine_events_with_tempo events score fps drift min_events = Inr out"
    and p0: "P (as_int_sorted_unique events)"
    and p1: "P (filter (\<lambda>e. e \<ge> 0 \<and> e < int (length score)) (as_int_sorted_unique events))"
    and p2: "\<And>d pr. P (as_int_sorted_unique (tempo_snap score d pr))"
  shows "P out"
proof -
  let ?srt = "as_int_sorted_unique events"
  let ?clamped = "filter (\<lambda>e. e \<ge> 0 \<and> e < int (length score)) ?srt"
  consider (a) "int (length ?srt) < min_events \<or> length ?srt < 2 \<or> length score = 0"
    | (b) "\<not> (int (length ?srt) < min_events \<or> length ?srt < 2 \<or> length score = 0)" "int (length ?clamped) < min_events"
    | (c) "\<not> (int (length ?srt) < min_events \<or> length ?srt < 2 \<or> length score = 0)" "\<not> int (length ?clamped) < min_events"
    by blast
  then show ?thesis
  proof cases
    case a
    then have "refine_events_with_tempo events score fps drift min_events = Inr ?srt"
      unfolding refine_events_with_tempo_def Let_def by (simp only: if_True)
    with r p0 show ?thesis by simp
  next
    case b
    then have "refine_events_with_tempo events score fps drift min_events = Inr ?clamped"
      unfolding refine_events_with_tempo_def Let_def by (simp only: if_True if_False)
    with r p1 show ?thesis by simp
  next
    case c
    then have "refine_events_with_tempo events score fps drift min_events = tempo_fit_snap ?clamped score drift min_events"
      unfolding refine_events_with_tempo_def Let_def by (simp only: if_False)
    with r have "tempo_fit_snap ?clamped score drift min_events = Inr out" by simp
    then show ?thesis using p1 p2 by (rule tempo_fit_snap_cases)
  qed
qed

lemma refine_events_range:
  assumes r: "refine_events_with_tempo events score fps drift min_events = Inr out"
    and ev: "\<forall>e \<in> set events. 0 \<le> e \<and> e < int (length score)"
  shows "sorted_wrt (<) out \<and> (\<forall>e \<in> set out. 0 \<le> e \<and> e < int (length score))"
proof (rule refine_events_cases[OF r])
  show p0: "sorted_wrt (<) (as_int_sorted_unique events) \<and>
        (\<forall>e \<in> set (as_int_sorted_unique events). 0 \<le> e \<and> e < int (length score))"
    using as_int_sorted_unique_props[of events] ev by simp
  show "sorted_wrt (<) (filter (\<lambda>e. e \<ge> 0 \<and> e < int (length score)) (as_int_sorted_unique events)) \<and>
        (\<forall>e \<in> set (filter (\<lambda>e. e \<ge> 0 \<and> e < int (length score)) (as_int_sorted_unique events)).
           0 \<le> e \<and> e < int (length score))"
    using p0 by (simp add: sorted_wrt_filter)
  show "sorted_wrt (<) (as_int_sorted_unique (tempo_snap score d pr)) \<and>
            (\<forall>e \<in> set (as_int_sorted_unique (tempo_snap score d pr)). 0 \<le> e \<and> e < int (length score))" for d pr
    using as_int_sorted_unique_props[of "tempo_snap score d pr"] tempo_snap_range[of score d pr] by simp
qed

lemma robust_norm_length: "robust_norm x lo hi eps = Inr y \<Longrightarrow> length y = length x"
  by (auto simp: robust_norm_def split: if_splits dest!: bindE_Inr)

lemma robust_norm_default_length: "robust_norm_default x = Inr y \<Longrightarrow> length y = length x"
  unfolding robust_norm_default_def by (rule robust_norm_length)

lemma length_candidate_score: "length (candidate_score score cand) = length score"
  by (simp add: candidate_score_def)

lemma nms_basic_range: "\<forall>i \<in> set (nms_basic score fps s). i < length score"
  using nms_basic_set_subset[of score fps s] by (auto simp: set_np_where length_local_maxima)

lemma nms_basic_strict_sorted: "sorted_wrt (<) (nms_basic score fps s)"
  using sorted_nms_basic[of score fps s] distinct_nms_basic[of score fps s]
  by (simp add: strict_sorted_iff)

lemma event_set_map_int:
  "sorted_wrt (<) xs \<Longrightarrow> \<forall>e \<in> set xs. e < T \<Longrightarrow> event_set T (map int xs)"
  by (auto simp: event_set_def sorted_wrt_map)

lemma detect_events_v1_event_set:
  assumes d: "detect_events_v1 positions fps params score Cl Cr lf rf = Inr ev"
    and len: "length score = length (frames positions)"
  shows "event_set (length (frames positions)) ev"
proof -
  let ?T = "length (frames positions)"
  from d obtain sep where
    c: "(let events = nms_basic score fps sep
         in if phase_snap_radius params > 0 \<and> (valid_idx lf (njoints positions) \<or> valid_idx rf (njoints positions))
               \<and> events \<noteq> []
            then bindE (phase_snap positions (1 / fps) (phase_snap_radius params) Cl Cr lf rf events)
                   (\<lambda>snapped. Inr (map int snapped))
            else Inr (map int events)) = Inr ev"
    unfolding detect_events_v1_def Let_def by (auto dest!: bindE_Inr)
  let ?events = "nms_basic score fps sep"
  have ne: "sorted_wrt (<) ?events" "\<forall>e \<in> set ?events. e < ?T"
    using nms_basic_strict_sorted[of score fps sep] nms_basic_range[of score fps sep] len by auto
  show ?thesis
  proof (cases "phase_snap_radius params > 0 \<and> (valid_idx lf (njoints positions) \<or> valid_idx rf (njoints positions)) \<and> ?events \<noteq> []")
    case True
    with c obtain snapped where s: "phase_snap positions (1 / fps) (phase_snap_radius params) Cl Cr lf rf ?events = Inr snapped"
      and e: "ev = map int snapped"
      by (auto simp: Let_def dest!: bindE_Inr)
    from phase_snap_range[OF s ne(2)] True have "sorted_wrt (<) snapped \<and> (\<forall>e \<in> set snapped. e < ?T)" by simp
    then show ?thesis using e event_set_map_int by blast
  next
    case False
    with c have "ev = map int ?events" by (auto simp: Let_def)
    then show ?thesis using ne event_set_map_int by blast
  qed
qed

lemma hard_recheck_props:
  "sorted_wrt (<) xs \<Longrightarrow> sorted_wrt (<) (hard_recheck score thr r xs)"
  "set (hard_recheck score thr r xs) \<subseteq> set xs"
  by (auto simp: hard_recheck_def Let_def sorted_wrt_filter)

lemma refine_event_set:
  assumes "refine_events_with_tempo (map int xs) score fps d m = Inr out"
    and "\<forall>e \<in> set xs. e < length score"
  shows "event_set (length score) out"
  using refine_events_range[OF assms(1)] assms(2) by (auto simp: event_set_def)

lemma detect_events_v2_event_set:
  assumes d: "detect_events_v2 positions fps params score mk Cl Cr lf rf = Inr ev"
    and len: "length score = length (frames positions)"
  shows "event_set (length (frames positions)) ev"
proof -
  let ?T = "length (frames positions)"
  let ?cand = "gated_candidates score mk fps (prom_window_s params) (min_prominence params) (min_area params)"
  from d obtain sep where
    c: "(let events = (if ?cand \<noteq> [] then nms_basic (candidate_score score ?cand) fps sep else [])
         in if phase_snap_radius params > 0 \<and> (valid_idx lf (njoints positions) \<or> valid_idx rf (njoints positions))
               \<and> events \<noteq> []
            then bindE (phase_snap positions (1 / fps) (phase_snap_radius params) Cl Cr lf rf events)
                   (\<lambda>snapped.
                     let strong = (if snapped \<noteq> []
                                   then hard_recheck score (score_threshold params) (snap_recheck_radius params) snapped
                                   else snapped)
                     in refine_events_with_tempo (map int strong) score fps 3 3)
            else Inr (map int events)) = Inr ev"
    unfolding detect_events_v2_def Let_def by (auto dest!: bindE_Inr)
  let ?events = "if ?cand \<noteq> [] then nms_basic (candidate_score score ?cand) fps sep else []"
  have ne: "sorted_wrt (<) ?events" "\<forall>e \<in> set ?events. e < ?T"
    using nms_basic_strict_sorted[of "candidate_score score ?cand" fps sep]
      nms_basic_range[of "candidate_score score ?cand" fps sep] len
    by (auto simp: length_candidate_score)
  show ?thesis
  proof (cases "phase_snap_radius params > 0 \<and> (valid_idx lf (njoints positions) \<or> valid_idx rf (njoints positions)) \<and> ?events \<noteq> []")
    case True
    with c obtain snapped where s: "phase_snap positions (1 / fps) (phase_snap_radius params) Cl Cr lf rf ?events = Inr snapped"
      and e: "refine_events_with_tempo
                (map int (if snapped \<noteq> []
                          then hard_recheck score (score_threshold params) (snap_recheck_radius params) snapped
                          else snapped)) score fps 3 3 = Inr ev"
      unfolding Let_def by (auto dest!: bindE_Inr)
    from phase_snap_range[OF s ne(2)] True have sn: "\<forall>e \<in> set snapped. e < ?T" by simp
    let ?strong = "if snapped \<noteq> []
                          then hard_recheck score (score_threshold params) (snap_recheck_radius params) snapped
                          else snapped"
    have "\<forall>e \<in> set ?strong. e < length score"
      using sn hard_recheck_props(2)[of score "score_threshold params" "snap_recheck_radius params" snapped] len
      by auto
    from refine_event_set[OF e this] show ?thesis using len by simp
  next
    case False
    with c have "ev = map int ?events" unfolding Let_def by auto
    then show ?thesis using ne event_set_map_int by blast
  qed
qed

lemma no_joints_v1_events:
  "no_joints_v1 positions dt p leg pelvis lf rf = Inr r \<Longrightarrow> events_idx r = []"
  unfolding no_joints_v1_def Let_def
  by (auto dest!: bindE_Inr)

lemma no_joints_v2_events:
  "no_joints_v2 positions dt p leg pelvis lf rf = Inr r \<Longrightarrow> events_idx r = []"
  unfolding no_joints_v2_def Let_def
  by (auto dest!: bindE_Inr)

lemma extract_beats_v1_event_set:
  assumes r: "extract_beats_v1 positions fps ji params pelvis lf rf = Inr r"
  shows "event_set (length (frames positions)) (events_idx r)"
proof -
  have "events_idx r = [] \<or> (\<exists>score p Cl Cr. length score = length (frames positions) \<and>
           detect_events_v1 positions fps (p :: beat_params_v1) score Cl Cr lf rf = Inr (events_idx r))"
    using r unfolding extract_beats_v1_def Let_def
    by (auto simp: empty_v1_def split: if_splits sum.splits
          dest!: bindE_Inr robust_norm_default_length no_joints_v1_events)
  then show ?thesis
  proof (elim disjE exE conjE)
    assume "events_idx r = []"
    then show ?thesis by (simp add: event_set_def)
  next
    fix score Cl Cr and p :: beat_params_v1
    assume "length score = length (frames positions)"
      and "detect_events_v1 positions fps p score Cl Cr lf rf = Inr (events_idx r)"
    then show ?thesis by (rule detect_events_v1_event_set[rotated])
  qed
qed

lemma extract_beats_v2_event_set:
  assumes r: "extract_beats_v2 positions fps ji params pelvis lf rf = Inr r"
  shows "event_set (length (frames positions)) (events_idx r)"
proof -
  have "events_idx r = [] \<or> (\<exists>score p mk Cl Cr. length score = length (frames positions) \<and>
           detect_events_v2 positions fps p score mk Cl Cr lf rf = Inr (events_idx r))"
    using r unfolding extract_beats_v2_def Let_def
    by (auto simp: empty_v2_def split: if_splits sum.splits
          dest!: bindE_Inr robust_norm_default_length no_joints_v2_events)
  then show ?thesis
  proof (elim disjE exE conjE)
    assume "events_idx r = []"
    then show ?thesis by (simp add: event_set_def)
  next
    fix score mk Cl Cr p
    assume "length score = length (frames positions)"
      and "detect_events_v2 positions fps p score mk Cl Cr lf rf = Inr (events_idx r)"
    then show ?thesis by (rule detect_events_v2_event_set[rotated])
  qed
qed

text \<open>
  C2. Whenever \<^verbatim>\<open>extract_beats_v1\<close> or \<^verbatim>\<open>extract_beats_v2\<close> returns, its \<^verbatim>\<open>events_idx\<close> is
  strictly increasing (hence sorted and free of duplicates) and every element is a frame
  index in \<open>[0, T)\<close>, for every position array, frame rate, joint selection and
  parameter set; an array without joints, where the score is NaN, is included.
\<close>

theorem extract_beats_events_strictly_increasing:
  "(extract_beats_v1 positions fps joint_indices params1 pelvis_idx left_foot_idx right_foot_idx = Inr r1
      \<longrightarrow> sorted_wrt (<) (events_idx r1)
          \<and> (\<forall>e \<in> set (events_idx r1). 0 \<le> e \<and> e < int (length (frames positions))))
   \<and> (extract_beats_v2 positions fps joint_indices params2 pelvis_idx left_foot_idx right_foot_idx = Inr r2
      \<longrightarrow> sorted_wrt (<) (events_idx r2)
          \<and> (\<forall>e \<in> set (events_idx r2). 0 \<le> e \<and> e < int (length (frames positions))))"
  using extract_beats_v1_event_set[of positions fps joint_indices params1 pelvis_idx left_foot_idx right_foot_idx r1]
    extract_beats_v2_event_set[of positions fps joint_indices params2 pelvis_idx left_foot_idx right_foot_idx r2]
  unfolding event_set_def by blast

text \<open>
  Running the model on concrete data. The simplifier evaluates a \<open>bindE\<close> left to right:
  the continuation is entered only once its argument is a value.
\<close>

lemma bindE_weak_cong: "m = m' \<Longrightarrow> bindE m f = bindE m' f"
  by simp

lemma norm3_axis: "norm3 (0, a, 0) = \<bar>a\<bar>"
  by (simp add: norm3_def vx_def vy_def vz_def)

lemma norm2_zero: "norm2 (0, 0) = 0"
  by (simp add: norm2_def)

lemmas eval_defs =
  extract_beats_v1_def extract_beats_v2_def detect_events_v1_def detect_events_v2_def
  well_shaped_def select_joints_def leg_length_def safe_idx_def
  body_speed_trace_def smooth_sel_def median_norm_def np_median_def
  cue_deceleration_def cue_pelvis_drop_def cue_global_accel_def cue_reversal_def mask_times_def
  cue_foot_contact_def valid_idx_def idx_of_def column_def ma3_def ma1d_def
  convolve_valid_def convolve_valid_ge_def
  assign_column_def bindE_def vx_def vy_def vz_def estimate_ground_level_def np_percentile_def
  grad_T2_def grad_TJ3_def grad_rows_def dq3_def dq2_def dq1_def grad1_def
  robust_norm_default_def robust_norm_def
  clip01_def local_minima_def local_maxima_def Let_def
  hysteresis_mask_def adaptive_nms_sep_def estimate_period_from_autocorr_def
  nms_basic_def nms_win_def py_round_def np_where_def argsort_def set_slice_def
  phase_snap_def snap_event_def snap_pick_def slice_def argmax_def argmin_def
  gated_candidates_def candidate_score_def hard_recheck_def
  refine_events_with_tempo_def as_int_sorted_unique_def
  BeatParamsV1_def BeatParamsV2_def demo_params_v1_def demo_params_v2_def
  demo_steps_def demo_merge_def no_joints_clip_def single_frame_def rising_clip_def
  no_joints_v1_def no_joints_v2_def
  norm3_axis norm2_zero upt_rec

lemma demo_prominence_1:
  "prominence_and_area [1518 / 7559, 1, 0, 5023 / 7559, 288 / 7559] (Suc 0) 1 = (1, 8318 / 7559)"
  by (simp add: prominence_and_area_def trapz_def slice_def upt_rec)

lemma demo_prominence_3:
  "prominence_and_area [1518 / 7559, 1, 0, 5023 / 7559, 288 / 7559] (Suc (Suc (Suc 0))) 1
     = (5023 / 7559, 5167 / 7559)"
  by (simp add: prominence_and_area_def trapz_def slice_def upt_rec)

lemma demo_steps_v1:
  "extract_beats_v1 demo_steps 10 [0] (Some demo_params_v1) None (Some 1) None =
     Inr \<lparr>beat_score = [Num 0, Num 1, Num 0, Num (235 / 299), Num 0],
          candidate_mask = [False, True, False, True, False], events_idx = [1, 3],
          C_decel = [Num 0, Num 1, Num 0, Num (5 / 9), Num 0],
          C_pelvis = [Num 0, Num 0, Num 0, Num 0, Num 0],
          C_foot = [Num 0, Num 1, Num 0, Num 1, Num 0]\<rparr>"
  by (simp add: eval_defs cong: bindE_weak_cong)

lemma demo_steps_v2:
  "extract_beats_v2 demo_steps 10 [0] (Some demo_params_v2) None (Some 1) None =
     Inr \<lparr>beat_score = [Num (1518 / 7559), Num 1, Num 0, Num (5023 / 7559), Num (288 / 7559)],
          candidate_mask = [False, True, False, True, False], events_idx = [1, 3],
          C_decel = [Num 0, Num 1, Num 0, Num (5 / 9), Num 0],
          C_pelvis = [Num 0, Num 0, Num 0, Num 0, Num 0],
          C_foot = [Num 0, Num 1, Num 0, Num 1, Num 0],
          C_accel = [Num 1, Num (37 / 53), Num 0, Num (2 / 53), Num (12 / 53)],
          C_reversal = [Num 0, Num 1, Num 0, Num (5 / 9), Num 0]\<rparr>"
  by (simp add: eval_defs demo_prominence_1 demo_prominence_3 cong: bindE_weak_cong)

lemma demo_merge_v1:
  "extract_beats_v1 demo_merge 10 [0] (Some demo_params_v1) None (Some 1) None =
     Inr \<lparr>beat_score = [Num 0, Num 1, Num 0, Num (235 / 299), Num 0],
          candidate_mask = [False, True, False, True, False], events_idx = [2],
          C_decel = [Num 0, Num 1, Num 0, Num (5 / 9), Num 0],
          C_pelvis = [Num 0, Num 0, Num 0, Num 0, Num 0],
          C_foot = [Num 0, Num 1, Num 0, Num 1, Num 0]\<rparr>"
  by (simp add: eval_defs cong: bindE_weak_cong)

lemma demo_merge_v2:
  "extract_beats_v2 demo_merge 10 [0] (Some demo_params_v2) None (Some 1) None =
     Inr \<lparr>beat_score = [Num (1518 / 7559), Num 1, Num 0, Num (5023 / 7559), Num (288 / 7559)],
          candidate_mask = [False, True, False, True, False], events_idx = [2],
          C_decel = [Num 0, Num 1, Num 0, Num (5 / 9), Num 0],
          C_pelvis = [Num 0, Num 0, Num 0, Num 0, Num 0],
          C_foot = [Num 0, Num 1, Num 0, Num 1, Num 0],
          C_accel = [Num 1, Num (37 / 53), Num 0, Num (2 / 53), Num (12 / 53)],
          C_reversal = [Num 0, Num 1, Num 0, Num (5 / 9), Num 0]\<rparr>"
  by (simp add: eval_defs demo_prominence_1 demo_prominence_3 cong: bindE_weak_cong)

text \<open>
  In \<open>demo_merge\<close> the suppression picks the frames 1 and 3, and the phase snap moves both
  to the one local minimum of the foot height, frame 2: \<^verbatim>\<open>sorted(set(snapped))\<close> drops the
  duplicate.
\<close>

lemma demo_merge_picks:
  "nms_basic [0, 1, 0, 235 / 299, 0] 10 (12 / 100) = [1, 3]
   \<and> mapE (snap_event demo_merge (1 / 10) 3 [0, 1, 0, 1, 0] [0, 0, 0, 0, 0] (Some 1) None) [1, 3]
       = Inr [2, 2]
   \<and> phase_snap demo_merge (1 / 10) 3 [0, 1, 0, 1, 0] [0, 0, 0, 0, 0] (Some 1) None [1, 3] = Inr [2]"
  by (simp add: eval_defs cong: bindE_weak_cong)

lemma no_joints_run_v1:
  "extract_beats_v1 no_joints_clip 30 [] None None None None =
     Inr \<lparr>beat_score = [NaN, NaN, NaN], candidate_mask = [False, False, False],
          events_idx = [], C_decel = [NaN, NaN, NaN],
          C_pelvis = [Num 0, Num 0, Num 0], C_foot = [Num 0, Num 0, Num 0]\<rparr>"
  by (simp add: eval_defs cong: bindE_weak_cong)

lemma no_joints_run_v2:
  "extract_beats_v2 no_joints_clip 30 [] None None None None =
     Inr \<lparr>beat_score = [NaN, NaN, NaN], candidate_mask = [False, False, False],
          events_idx = [], C_decel = [NaN, NaN, NaN],
          C_pelvis = [Num 0, Num 0, Num 0], C_foot = [Num 0, Num 0, Num 0],
          C_accel = [NaN, NaN, NaN], C_reversal = [NaN, NaN, NaN]\<rparr>"
  by (simp add: eval_defs cong: bindE_weak_cong)

theorem extract_beats_events_strictly_increasing_witness:
  "extract_beats_v1 demo_steps 10 [0] (Some demo_params_v1) None (Some 1) None =
     Inr \<lparr>beat_score = [Num 0, Num 1, Num 0, Num (235 / 299), Num 0],
          candidate_mask = [False, True, False, True, False], events_idx = [1, 3],
          C_decel = [Num 0, Num 1, Num 0, Num (5 / 9), Num 0],
          C_pelvis = [Num 0, Num 0, Num 0, Num 0, Num 0],
          C_foot = [Num 0, Num 1, Num 0, Num 1, Num 0]\<rparr>
   \<and> extract_beats_v2 demo_steps 10 [0] (Some demo_params_v2) None (Some 1) None =
     Inr \<lparr>beat_score = [Num (1518 / 7559), Num 1, Num 0, Num (5023 / 7559), Num (288 / 7559)],
          candidate_mask = [False, True, False, True, False], events_idx = [1, 3],
          C_decel = [Num 0, Num 1, Num 0, Num (5 / 9), Num 0],
          C_pelvis = [Num 0, Num 0, Num 0, Num 0, Num 0],
          C_foot = [Num 0, Num 1, Num 0, Num 1, Num 0],
          C_accel = [Num 1, Num (37 / 53), Num 0, Num (2 / 53), Num (12 / 53)],
          C_reversal = [Num 0, Num 1, Num 0, Num (5 / 9), Num 0]\<rparr>
   \<and> sorted_wrt (<) [1, 3 :: int]
   \<and> (0 :: int) \<le> 1 \<and> (3 :: int) < int (length (frames demo_steps))
   \<and> extract_beats_v1 demo_merge 10 [0] (Some demo_params_v1) None (Some 1) None =
     Inr \<lparr>beat_score = [Num 0, Num 1, Num 0, Num (235 / 299), Num 0],
          candidate_mask = [False, True, False, True, False], events_idx = [2],
          C_decel = [Num 0, Num 1, Num 0, Num (5 / 9), Num 0],
          C_pelvis = [Num 0, Num 0, Num 0, Num 0, Num 0],
          C_foot = [Num 0, Num 1, Num 0, Num 1, Num 0]\<rparr>
   \<and> extract_beats_v2 demo_merge 10 [0] (Some demo_params_v2) None (Some 1) None =
     Inr \<lparr>beat_score = [Num (1518 / 7559), Num 1, Num 0, Num (5023 / 7559), Num (288 / 7559)],
          candidate_mask = [False, True, False, True, False], events_idx = [2],
          C_decel = [Num 0, Num 1, Num 0, Num (5 / 9), Num 0],
          C_pelvis = [Num 0, Num 0, Num 0, Num 0, Num 0],
          C_foot = [Num 0, Num 1, Num 0, Num 1, Num 0],
          C_accel = [Num 1, Num (37 / 53), Num 0, Num (2 / 53), Num (12 / 53)],
          C_reversal = [Num 0, Num 1, Num 0, Num (5 / 9), Num 0]\<rparr>
   \<and> sorted_wrt (<) [2 :: int]
   \<and> (0 :: int) \<le> 2 \<and> (2 :: int) < int (length (frames demo_merge))
   \<and> extract_beats_v1 no_joints_clip 30 [] None None None None =
     Inr \<lparr>beat_score = [NaN, NaN, NaN], candidate_mask = [False, False, False],
          events_idx = [], C_decel = [NaN, NaN, NaN],
          C_pelvis = [Num 0, Num 0, Num 0], C_foot = [Num 0, Num 0, Num 0]\<rparr>
   \<and> extract_beats_v2 no_joints_clip 30 [] None None None None =
     Inr \<lparr>beat_score = [NaN, NaN, NaN], candidate_mask = [False, False, False],
          events_idx = [], C_decel = [NaN, NaN, NaN],
          C_pelvis = [Num 0, Num 0, Num 0], C_foot = [Num 0, Num 0, Num 0],
          C_accel = [NaN, NaN, NaN], C_reversal = [NaN, NaN, NaN]\<rparr>
   \<and> sorted_wrt (<) ([] :: int list)"
proof -
  note s = extract_beats_events_strictly_increasing[of demo_steps 10 "[0]" "Some demo_params_v1"
      None "Some 1" None _ "Some demo_params_v2", unfolded demo_steps_v1 demo_steps_v2]
  from s[of "\<lparr>beat_score = [Num 0, Num 1, Num 0, Num (235 / 299), Num 0],
          candidate_mask = [False, True, False, True, False], events_idx = [1, 3],
          C_decel = [Num 0, Num 1, Num 0, Num (5 / 9), Num 0],
          C_pelvis = [Num 0, Num 0, Num 0, Num 0, Num 0],
          C_foot = [Num 0, Num 1, Num 0, Num 1, Num 0]\<rparr>"
         "\<lparr>beat_score = [Num (1518 / 7559), Num 1, Num 0, Num (5023 / 7559), Num (288 / 7559)],
          candidate_mask = [False, True, False, True, False], events_idx = [1, 3],
          C_decel = [Num 0, Num 1, Num 0, Num (5 / 9), Num 0],
          C_pelvis = [Num 0, Num 0, Num 0, Num 0, Num 0],
          C_foot = [Num 0, Num 1, Num 0, Num 1, Num 0],
          C_accel = [Num 1, Num (37 / 53), Num 0, Num (2 / 53), Num (12 / 53)],
          C_reversal = [Num 0, Num 1, Num 0, Num (5 / 9), Num 0]\<rparr>"]
  have a: "sorted_wrt (<) [1, 3 :: int] \<and> (0 :: int) \<le> 1
           \<and> (3 :: int) < int (length (frames demo_steps))"
    by simp
  note m = extract_beats_events_strictly_increasing[of demo_merge 10 "[0]" "Some demo_params_v1"
      None "Some 1" None _ "Some demo_params_v2", unfolded demo_merge_v1 demo_merge_v2]
  from m[of "\<lparr>beat_score = [Num 0, Num 1, Num 0, Num (235 / 299), Num 0],
          candidate_mask = [False, True, False, True, False], events_idx = [2],
          C_decel = [Num 0, Num 1, Num 0, Num (5 / 9), Num 0],
          C_pelvis = [Num 0, Num 0, Num 0, Num 0, Num 0],
          C_foot = [Num 0, Num 1, Num 0, Num 1, Num 0]\<rparr>"
         "\<lparr>beat_score = [Num (1518 / 7559), Num 1, Num 0, Num (5023 / 7559), Num (288 / 7559)],
          candidate_mask = [False, True, False, True, False], events_idx = [2],
          C_decel = [Num 0, Num 1, Num 0, Num (5 / 9), Num 0],
          C_pelvis = [Num 0, Num 0, Num 0, Num 0, Num 0],
          C_foot = [Num 0, Num 1, Num 0, Num 1, Num 0],
          C_accel = [Num 1, Num (37 / 53), Num 0, Num (2 / 53), Num (12 / 53)],
          C_reversal = [Num 0, Num 1, Num 0, Num (5 / 9), Num 0]\<rparr>"]
  have b: "sorted_wrt (<) [2 :: int] \<and> (0 :: int) \<le> 2
           \<and> (2 :: int) < int (length (frames demo_merge))"
    by simp
  note n = extract_beats_events_strictly_increasing[of no_joints_clip 30 "[]" None
      None None None _ None, unfolded no_joints_run_v1 no_joints_run_v2]
  from n[of "\<lparr>beat_score = [NaN, NaN, NaN], candidate_mask = [False, False, False],
          events_idx = [], C_decel = [NaN, NaN, NaN],
          C_pelvis = [Num 0, Num 0, Num 0], C_foot = [Num 0, Num 0, Num 0]\<rparr>"
         "\<lparr>beat_score = [NaN, NaN, NaN], candidate_mask = [False, False, False],
          events_idx = [], C_decel = [NaN, NaN, NaN],
          C_pelvis = [Num 0, Num 0, Num 0], C_foot = [Num 0, Num 0, Num 0],
          C_accel = [NaN, NaN, NaN], C_reversal = [NaN, NaN, NaN]\<rparr>"]
  have c: "sorted_wrt (<) ([] :: int list)"
    by simp
  from a b c show ?thesis
    using demo_steps_v1 demo_steps_v2 demo_merge_v1 demo_merge_v2 no_joints_run_v1 no_joints_run_v2
    by simp
qed

subsection \<open>Degenerate input\<close>

text \<open>
  C3. On a \<open>(T, N, 3)\<close> array with \<open>T = 0\<close>, or with a frame rate \<open>fps \<le> 0\<close>, both
  extractors return (they do not raise) and every array of the result is empty.
\<close>

theorem extract_beats_degenerate_input:
  assumes "well_shaped positions" and "length (frames positions) = 0 \<or> fps \<le> 0"
  shows "extract_beats_v1 positions fps joint_indices params1 pelvis_idx left_foot_idx right_foot_idx
           = Inr \<lparr>beat_score = [], candidate_mask = [], events_idx = [],
                  C_decel = [], C_pelvis = [], C_foot = []\<rparr>
       \<and> extract_beats_v2 positions fps joint_indices params2 pelvis_idx left_foot_idx right_foot_idx
           = Inr \<lparr>beat_score = [], candidate_mask = [], events_idx = [],
                  C_decel = [], C_pelvis = [], C_foot = [], C_accel = [], C_reversal = []\<rparr>"
  using assms by (auto simp: extract_beats_v1_def extract_beats_v2_def empty_v1_def empty_v2_def)

theorem extract_beats_degenerate_input_witness:
  "well_shaped \<lparr>njoints = 2, frames = []\<rparr>
   \<and> extract_beats_v1 \<lparr>njoints = 2, frames = []\<rparr> 30 [0, 1] None (Some 0) (Some 1) None
       = Inr \<lparr>beat_score = [], candidate_mask = [], events_idx = [],
              C_decel = [], C_pelvis = [], C_foot = []\<rparr>
   \<and> well_shaped \<lparr>njoints = 1, frames = [[(1, 2, 3)], [(1, 3, 3)], [(1, 2, 3)]]\<rparr>
   \<and> extract_beats_v2 \<lparr>njoints = 1, frames = [[(1, 2, 3)], [(1, 3, 3)], [(1, 2, 3)]]\<rparr> 0 [0] None (Some 0) None None
       = Inr \<lparr>beat_score = [], candidate_mask = [], events_idx = [],
              C_decel = [], C_pelvis = [], C_foot = [], C_accel = [], C_reversal = []\<rparr>"
proof -
  have a: "well_shaped \<lparr>njoints = 2, frames = []\<rparr>"
    by (simp add: well_shaped_def)
  have b: "well_shaped \<lparr>njoints = 1, frames = [[(1, 2, 3)], [(1, 3, 3)], [(1, 2, 3)]]\<rparr>"
    by (simp add: well_shaped_def)
  have c: "length (frames \<lparr>njoints = 2, frames = []\<rparr>) = 0 \<or> (30::real) \<le> 0"
    by simp
  have d: "length (frames \<lparr>njoints = 1, frames = [[(1, 2, 3)], [(1, 3, 3)], [(1, 2, 3 :: real)]]\<rparr>) = 0 \<or> (0::real) \<le> 0"
    by simp
  show ?thesis
    using a b extract_beats_degenerate_input[OF a c, of "[0, 1]" None "Some 0" "Some 1" None None]
      extract_beats_degenerate_input[OF b d, of "[0]" None "Some 0" None None None]
    by simp
qed

subsection \<open>Short clips and even smoothing windows\<close>

text \<open>
  C5. On a clip of one frame (\<open>T = 1\<close>, one joint, \<open>dt = 1/30\<close>, window \<open>5\<close>) four of the five
  cue paths raise \<^verbatim>\<open>IndexError\<close>: \<^verbatim>\<open>_body_speed_trace\<close> (which feeds the deceleration
  cue), \<^verbatim>\<open>_cue_global_accel\<close>, \<^verbatim>\<open>_cue_reversal\<close> and \<^verbatim>\<open>_cue_foot_contact\<close> all call
  \<^verbatim>\<open>_grad\<close> on an array of two or three dimensions, whose branch reads \<^verbatim>\<open>x[1, ...]\<close>
  without the \<^verbatim>\<open>n == 1\<close> guard of the one-dimensional branch. Only \<^verbatim>\<open>_cue_pelvis_drop\<close>
  returns the zero array, and \<^verbatim>\<open>extract_beats_v1\<close> raises with them.
\<close>

theorem cue_extractors_single_frame:
  "body_speed_trace single_frame (1 / 30) 5 = Inl IndexError
   \<and> cue_global_accel single_frame (1 / 30) 5 = Inl IndexError
   \<and> cue_reversal single_frame (1 / 30) 5 = Inl IndexError
   \<and> cue_foot_contact single_frame (Some 0) (1 / 30) 5 (2 / 10) (5 / 100) 1 = Inl IndexError
   \<and> cue_pelvis_drop single_frame (Some 0) (1 / 30) 5 = Inr [0]
   \<and> grad1 [0] (1 / 30) = Inr [0]
   \<and> extract_beats_v1 single_frame 30 [0] None (Some 0) None None = Inl IndexError"
  by (simp add: eval_defs cong: bindE_weak_cong)

theorem cue_extractors_single_frame_witness:
  "body_speed_trace \<lparr>njoints = 1, frames = [[(0, 0, 0)]]\<rparr> (1 / 30) 5 = Inl IndexError"
  using cue_extractors_single_frame[THEN conjunct1] by (simp add: single_frame_def)

text \<open>
  C6. With the even window \<open>smooth_win = 2\<close> on three frames, \<^verbatim>\<open>_ma1d\<close> pads one value on
  each side and convolves five values with a kernel of two: four values come back for
  three. \<^verbatim>\<open>_ma3\<close> cannot store them in a column of three and raises \<^verbatim>\<open>ValueError\<close>, and so
  do the cue extractors that smooth with it.
\<close>

theorem even_window_length_mismatch:
  "ma1d [1, 2, 3] 2 = Inr [1, 3 / 2, 5 / 2, 3]
   \<and> ma3 [(0, 1, 0), (0, 2, 0), (0, 3, 0)] 2 = Inl ValueError
   \<and> cue_pelvis_drop rising_clip (Some 0) (1 / 30) 2 = Inl ValueError
   \<and> body_speed_trace rising_clip (1 / 30) 2 = Inl ValueError
   \<and> cue_foot_contact rising_clip (Some 0) (1 / 30) 2 (2 / 10) (5 / 100) 1 = Inl ValueError
   \<and> cue_global_accel rising_clip (1 / 30) 2 = Inl ValueError
   \<and> cue_reversal rising_clip (1 / 30) 2 = Inl ValueError"
  by (simp add: eval_defs cong: bindE_weak_cong)

theorem even_window_length_mismatch_witness:
  "cue_pelvis_drop \<lparr>njoints = 1, frames = [[(0, 1, 0)], [(0, 2, 0)], [(0, 3, 0)]]\<rparr>
     (Some 0) (1 / 30) 2 = Inl ValueError"
  using even_window_length_mismatch[THEN conjunct2, THEN conjunct2, THEN conjunct1]
  by (simp add: rising_clip_def)

end
